theory Spec2Isabelle
  imports Main "HOL-Library.Multiset"
begin

section \<open>Python strings\<close>

text \<open>
  A Python \<open>str\<close> is a sequence of Unicode code points, so a string is modelled as a
  list of natural numbers. \<open>ustr\<close> embeds an ASCII literal.
\<close>

type_synonym codepoint = nat
type_synonym pystr = "codepoint list"

definition ustr :: "string \<Rightarrow> pystr" where
  "ustr s = map of_char s"

text \<open>\<open>string.ascii_letters\<close> and \<open>string.digits\<close> of the standard library.\<close>

definition ascii_letters :: pystr where
  "ascii_letters = ustr ''abcdefghijklmnopqrstuvwxyzABCDEFGHIJKLMNOPQRSTUVWXYZ''"

definition digits :: pystr where
  "digits = ustr ''0123456789''"

text \<open>
  The code points for which \<open>str.isspace\<close> holds; \<open>str.strip()\<close> without argument and
  the regular expression class \<open>\s\<close> both use this set.
\<close>

definition whitespace :: "codepoint list" where
  "whitespace = [9, 10, 11, 12, 13, 28, 29, 30, 31, 32, 133, 160, 5760,
     8192, 8193, 8194, 8195, 8196, 8197, 8198, 8199, 8200, 8201, 8202,
     8232, 8233, 8239, 8287, 12288]"

definition py_isspace :: "codepoint \<Rightarrow> bool" where
  "py_isspace c = (c \<in> set whitespace)"

text \<open>\<open>s.strip()\<close>: leading and trailing whitespace removed.\<close>

definition strip :: "pystr \<Rightarrow> pystr" where
  "strip s = rev (dropWhile py_isspace (rev (dropWhile py_isspace s)))"

text \<open>\<open>s.replace(old, new)\<close> for one-character \<open>old\<close> and \<open>new\<close>.\<close>

definition replace_char :: "codepoint \<Rightarrow> codepoint \<Rightarrow> pystr \<Rightarrow> pystr" where
  "replace_char old new s = map (\<lambda>c. if c = old then new else c) s"

section \<open>Helpers of spotisaver.py\<close>

text \<open>
  \<^verbatim>\<open>
  def sanitize_filename(name):
      valid = f"-_.() {string.ascii_letters}{string.digits}"
      return "".join(c for c in name if c in valid).strip().replace(" ", "_")
  \<close>
  The same function is in spotisave.py, csvsaver.py and csvsaver-gui.py.
\<close>

definition valid :: pystr where
  "valid = ustr ''-_.() '' @ ascii_letters @ digits"

definition sanitize_filename :: "pystr \<Rightarrow> pystr" where
  "sanitize_filename name =
     replace_char 32 95 (strip (filter (\<lambda>c. c \<in> set valid) name))"

section \<open>The catalog client\<close>

text \<open>
  Exceptions are values. All of them are subclasses of Python's \<open>Exception\<close>.
  \<open>SpotifyException\<close> and \<open>RequestException\<close> stand for whatever the spotipy client
  and the requests library raise.
\<close>

datatype exn = TypeError | AttributeError | ValueError | RuntimeError pystr
  | StopIteration | FileNotFoundError | SpotifyException | RequestException

record artist_ref =
  artist_id :: pystr
  artist_name :: pystr

record album_obj =
  album_name :: pystr
  album_release_date :: pystr
  album_label :: "pystr option"
  album_images :: "pystr list"

record track_obj =
  track_uri :: pystr
  track_name :: pystr
  track_album :: album_obj
  track_artists :: "artist_ref list"
  duration_ms :: int
  popularity :: int
  explicit :: bool
  spotify_url :: "pystr option"

record playlist_item =
  item_track :: "track_obj option"
  added_by_id :: pystr
  added_at :: pystr

record page =
  page_items :: "playlist_item list"
  page_next :: "pystr option"

record catalog =
  sp_playlist :: "pystr \<Rightarrow> exn + pystr"
  sp_playlist_tracks :: "pystr \<Rightarrow> exn + page"
  sp_get :: "pystr \<Rightarrow> exn + page"
  sp_artist :: "pystr \<Rightarrow> exn + pystr list"
  sp_track :: "pystr \<Rightarrow> exn + track_obj"

definition truthy_next :: "pystr option \<Rightarrow> bool" where
  "truthy_next n = (case n of None \<Rightarrow> False | Some u \<Rightarrow> u \<noteq> [])"

partial_function (option) next_pages ::
    "catalog \<Rightarrow> page \<Rightarrow> playlist_item list \<Rightarrow> (exn + playlist_item list) option" where
  "next_pages sp results tracks =
     (case page_next results of
        None \<Rightarrow> Some (Inr tracks)
      | Some u \<Rightarrow>
          if u = [] then Some (Inr tracks)
          else (case sp_get sp u of
                  Inl e \<Rightarrow> Some (Inl e)
                | Inr results' \<Rightarrow> next_pages sp results' (tracks @ page_items results')))"

definition get_playlist_tracks ::
    "catalog \<Rightarrow> pystr \<Rightarrow> (exn + playlist_item list) option" where
  "get_playlist_tracks sp playlist_id =
     (case sp_playlist_tracks sp playlist_id of
        Inl e \<Rightarrow> Some (Inl e)
      | Inr results \<Rightarrow> next_pages sp results ([] @ page_items results))"

fun paginated :: "catalog \<Rightarrow> page \<Rightarrow> playlist_item list list \<Rightarrow> bool" where
  "paginated sp p [] = False"
| "paginated sp p [its] = (page_items p = its \<and> \<not> truthy_next (page_next p))"
| "paginated sp p (its # rest) =
     (page_items p = its \<and> truthy_next (page_next p) \<and>
      (case sp_get sp (the (page_next p)) of
         Inl e \<Rightarrow> False
       | Inr p' \<Rightarrow> paginated sp p' rest))"


datatype cell = S pystr | I int | B bool | Null

type_synonym row = "(pystr \<times> cell) list"

fun join :: "pystr \<Rightarrow> pystr list \<Rightarrow> pystr" where
  "join sep [] = []"
| "join sep [x] = x"
| "join sep (x # y # ys) = x @ sep @ join sep (y # ys)"

definition extract_track_info :: "playlist_item \<Rightarrow> row" where
  "extract_track_info track_item =
     (case item_track track_item of
        None \<Rightarrow>
          [(ustr ''Track Name'', Null), (ustr ''Artists'', Null), (ustr ''Album'', Null),
           (ustr ''Duration (ms)'', Null), (ustr ''Popularity'', Null),
           (ustr ''Track URL'', Null)]
      | Some track \<Rightarrow>
          [(ustr ''Track Name'', S (track_name track)),
           (ustr ''Artists'',
              if track_artists track \<noteq> []
              then S (join (ustr '', '') (map artist_name (track_artists track))) else Null),
           (ustr ''Album'', S (album_name (track_album track))),
           (ustr ''Duration (ms)'', I (duration_ms track)),
           (ustr ''Popularity'', I (popularity track)),
           (ustr ''Track URL'',
              case spotify_url track of None \<Rightarrow> Null | Some u \<Rightarrow> S u)])"

definition playlist_data :: "catalog \<Rightarrow> pystr \<Rightarrow> (exn + row list) option" where
  "playlist_data sp playlist_id =
     (case sp_playlist sp playlist_id of
        Inl e \<Rightarrow> Some (Inl e)
      | Inr playlist_name \<Rightarrow>
          (case get_playlist_tracks sp playlist_id of
             None \<Rightarrow> None
           | Some (Inl e) \<Rightarrow> Some (Inl e)
           | Some (Inr tracks) \<Rightarrow> Some (Inr (map extract_track_info tracks))))"

text \<open>
  \<^verbatim>\<open>genres = set()\<close> and \<^verbatim>\<open>genres.update(xs)\<close> (spotisaver.py 195-197, csvsaver.py 49-52). A set
  of str is held as the list of its members, each once, in the order of first insertion:
  \<open>update\<close> adds the elements of its argument that are not members yet. The order in which
  Python iterates over a set (what \<^verbatim>\<open>", ".join(genres)\<close> sees) is not fixed by the program; it is
  a parameter \<open>iter\<close> of a run, any rearrangement of the members.
\<close>

type_synonym pyset = "pystr list"

definition set_add :: "pystr \<Rightarrow> pyset \<Rightarrow> pyset" where
  "set_add x s = (if x \<in> set s then s else s @ [x])"

definition set_update :: "pyset \<Rightarrow> pystr list \<Rightarrow> pyset" where
  "set_update s xs = fold set_add xs s"

type_synonym set_order = "pyset \<Rightarrow> pystr list"

definition set_order_ok :: "set_order \<Rightarrow> bool" where
  "set_order_ok iter = (\<forall>s. distinct s \<longrightarrow> mset (iter s) = mset s)"

fun track_genres :: "catalog \<Rightarrow> artist_ref list \<Rightarrow> pyset \<Rightarrow> exn + pyset" where
  "track_genres sp [] genres = Inr genres"
| "track_genres sp (a # as) genres =
     (case sp_artist sp (artist_id a) of
        Inl e \<Rightarrow> Inl e
      | Inr gs \<Rightarrow> track_genres sp as (set_update genres gs))"

definition feature_columns :: "pystr list" where
  "feature_columns = map ustr [''Danceability'', ''Energy'', ''Key'', ''Loudness'', ''Mode'',
     ''Speechiness'', ''Acousticness'', ''Instrumentalness'', ''Liveness'', ''Valence'',
     ''Tempo'', ''Time Signature'']"

definition export_row :: "set_order \<Rightarrow> catalog \<Rightarrow> playlist_item \<Rightarrow> exn + row" where
  "export_row iter sp t =
     (case item_track t of
        None \<Rightarrow> Inl TypeError
      | Some tr \<Rightarrow>
          (case track_genres sp (track_artists tr) [] of
             Inl e \<Rightarrow> Inl e
           | Inr genres \<Rightarrow>
               Inr ([(ustr ''Track URI'', S (track_uri tr)),
                     (ustr ''Track Name'', S (track_name tr)),
                     (ustr ''Album Name'', S (album_name (track_album tr))),
                     (ustr ''Artist Name(s)'',
                        S (join (ustr '', '') (map artist_name (track_artists tr)))),
                     (ustr ''Release Date'', S (album_release_date (track_album tr))),
                     (ustr ''Duration (ms)'', I (duration_ms tr)),
                     (ustr ''Popularity'', I (popularity tr)),
                     (ustr ''Explicit'', B (explicit tr)),
                     (ustr ''Added By'', S (added_by_id t)),
                     (ustr ''Added At'', S (added_at t)),
                     (ustr ''Genres'', S (join (ustr '', '') (iter genres))),
                     (ustr ''Record Label'',
                        S (case album_label (track_album tr) of None \<Rightarrow> [] | Some l \<Rightarrow> l))]
                    @ map (\<lambda>k. (k, I 0)) feature_columns)))"

fun export_rows :: "set_order \<Rightarrow> catalog \<Rightarrow> playlist_item list \<Rightarrow> exn + row list" where
  "export_rows iter sp [] = Inr []"
| "export_rows iter sp (t # ts) =
     (case export_row iter sp t of
        Inl e \<Rightarrow> Inl e
      | Inr r \<Rightarrow>
          (case export_rows iter sp ts of
             Inl e \<Rightarrow> Inl e
           | Inr rs \<Rightarrow> Inr (r # rs)))"

definition path_join :: "pystr \<Rightarrow> pystr \<Rightarrow> pystr" where
  "path_join a b =
     (if take 1 b = ustr ''/'' then b
      else if a = [] \<or> last a = of_char CHR ''/'' then a @ b
      else a @ ustr ''/'' @ b)"

type_synonym csv_files = "pystr \<rightharpoonup> row list"

definition export_task ::
    "set_order \<Rightarrow> catalog \<Rightarrow> pystr \<Rightarrow> pystr \<Rightarrow> csv_files
      \<Rightarrow> (exn + pystr \<times> csv_files) option" where
  "export_task iter sp pid out files =
     (case sp_playlist sp pid of
        Inl e \<Rightarrow> Some (Inl e)
      | Inr playlist_name \<Rightarrow>
          (case get_playlist_tracks sp pid of
             None \<Rightarrow> None
           | Some (Inl e) \<Rightarrow> Some (Inl e)
           | Some (Inr tracks) \<Rightarrow>
               (case export_rows iter sp tracks of
                  Inl e \<Rightarrow> Some (Inl e)
                | Inr data \<Rightarrow>
                    (let name = sanitize_filename playlist_name;
                         path = path_join out (name @ ustr ''.csv'')
                     in Some (Inr (path, files(path \<mapsto> data)))))))"

definition extract_track_info_old ::
    "set_order \<Rightarrow> catalog \<Rightarrow> playlist_item \<Rightarrow> exn + row" where
  "extract_track_info_old iter sp track_item =
     (case item_track track_item of
        None \<Rightarrow> Inr []
      | Some track \<Rightarrow>
          (case track_genres sp (track_artists track) [] of
             Inl e \<Rightarrow> Inl e
           | Inr genres \<Rightarrow>
               Inr ([(ustr ''Track URI'', S (track_uri track)),
                     (ustr ''Track Name'', S (track_name track)),
                     (ustr ''Album Name'', S (album_name (track_album track))),
                     (ustr ''Artist Name(s)'',
                        S (join (ustr '', '') (map artist_name (track_artists track)))),
                     (ustr ''Release Date'', S (album_release_date (track_album track))),
                     (ustr ''Duration (ms)'', I (duration_ms track)),
                     (ustr ''Popularity'', I (popularity track)),
                     (ustr ''Explicit'', B (explicit track)),
                     (ustr ''Added By'', S (added_by_id track_item)),
                     (ustr ''Added At'', S (added_at track_item)),
                     (ustr ''Genres'', S (join (ustr '', '') (iter genres))),
                     (ustr ''Record Label'',
                        case album_label (track_album track) of
                          None \<Rightarrow> Null | Some l \<Rightarrow> S l)]
                    @ map (\<lambda>k. (k, I 0)) feature_columns)))"


definition example_album :: album_obj where
  "example_album = \<lparr>album_name = ustr ''Promise'', album_release_date = ustr ''1985-11-04'',
     album_label = Some (ustr ''Epic''), album_images = []\<rparr>"

definition example_track :: "pystr \<Rightarrow> track_obj" where
  "example_track n = \<lparr>track_uri = ustr ''spotify:track:'' @ n, track_name = n,
     track_album = example_album,
     track_artists = [\<lparr>artist_id = ustr ''a1'', artist_name = ustr ''Sade''\<rparr>,
                      \<lparr>artist_id = ustr ''a2'', artist_name = ustr ''Guest''\<rparr>],
     duration_ms = 1000, popularity = 50, explicit = False, spotify_url = None\<rparr>"

definition example_item :: "pystr \<Rightarrow> playlist_item" where
  "example_item n = \<lparr>item_track = Some (example_track n), added_by_id = ustr ''u1'',
     added_at = ustr ''2024-01-01''\<rparr>"

definition removed_item :: playlist_item where
  "removed_item = \<lparr>item_track = None, added_by_id = ustr ''u1'',
     added_at = ustr ''2024-01-01''\<rparr>"

definition example_catalog :: "pystr \<Rightarrow> playlist_item list \<Rightarrow> playlist_item list \<Rightarrow> catalog" where
  "example_catalog name first_page second_page =
     \<lparr>sp_playlist = (\<lambda>pid. Inr name),
      sp_playlist_tracks =
        (\<lambda>pid. Inr \<lparr>page_items = first_page, page_next = Some (ustr ''offset=2'')\<rparr>),
      sp_get =
        (\<lambda>u. if u = ustr ''offset=2''
              then Inr \<lparr>page_items = second_page, page_next = None\<rparr>
              else Inl SpotifyException),
      sp_artist =
        (\<lambda>i. if i = ustr ''a1'' then Inr [ustr ''pop'', ustr ''soul'']
              else if i = ustr ''a2'' then Inr [ustr ''pop'', ustr ''jazz'']
              else Inl SpotifyException),
      sp_track = (\<lambda>i. Inr (example_track i))\<rparr>"


section \<open>Download jobs\<close>

text \<open>
  A row of the imported CSV is a dict from column names to cells; \<open>row.get(k, "")\<close> is
  \<open>row_get\<close>. \<open>str(v)\<close> and the truth of a cell follow Python (an empty cell of the CSV
  is read as NaN, which is true and prints as \<open>nan\<close>).
\<close>

fun str_nat :: "nat \<Rightarrow> pystr" where
  "str_nat n = (if n < 10 then [48 + n] else str_nat (n div 10) @ [48 + n mod 10])"

declare str_nat.simps [simp del]

definition py_str :: "cell \<Rightarrow> pystr" where
  "py_str v =
     (case v of
        S s \<Rightarrow> s
      | I n \<Rightarrow> (if n < 0 then ustr ''-'' @ str_nat (nat (- n)) else str_nat (nat n))
      | B b \<Rightarrow> (if b then ustr ''True'' else ustr ''False'')
      | Null \<Rightarrow> ustr ''nan'')"

definition truthy :: "cell \<Rightarrow> bool" where
  "truthy v = (case v of S s \<Rightarrow> s \<noteq> [] | I n \<Rightarrow> n \<noteq> 0 | B b \<Rightarrow> b | Null \<Rightarrow> True)"

type_synonym dl_row = "pystr \<rightharpoonup> cell"

definition row_get :: "dl_row \<Rightarrow> pystr \<Rightarrow> cell" where
  "row_get row k = (case row k of None \<Rightarrow> S [] | Some v \<Rightarrow> v)"

text \<open>
  \<open>build_safe_filename\<close> (spotisaver.py 64-68): the characters \<^verbatim>\<open>\/:*?"<>|\<close> become spaces,
  runs of whitespace collapse to one space, the name is stripped and the extension added.
\<close>

definition illegal_chars :: pystr where
  "illegal_chars = [92, 47, 58, 42, 63, 34, 60, 62, 124]"

function collapse_spaces :: "pystr \<Rightarrow> pystr" where
  "collapse_spaces [] = []"
| "collapse_spaces (c # cs) =
     (if py_isspace c then 32 # collapse_spaces (dropWhile py_isspace cs)
      else c # collapse_spaces cs)"
  by pat_completeness auto
termination
  by (relation "measure length") (auto intro: le_imp_less_Suc length_dropWhile_le)

definition build_safe_filename :: "pystr \<Rightarrow> pystr \<Rightarrow> pystr \<Rightarrow> pystr" where
  "build_safe_filename artist title ext =
     (let name = artist @ ustr '' - '' @ title;
          name = map (\<lambda>c. if c \<in> set illegal_chars then 32 else c) name;
          name = strip (collapse_spaces name)
      in name @ ustr ''.'' @ ext)"

text \<open>
  The file system is the list of the paths that exist. \<open>subprocess.run\<close> raises TypeError
  when an argument is \<open>None\<close> (each argument must be str, bytes or a path); otherwise the
  external tool runs and may create files; it raises nothing when the tool fails.
\<close>

type_synonym files = "pystr list"

record tools =
  run_tool :: "pystr list \<Rightarrow> files \<Rightarrow> exn + files"
  http_get :: "pystr \<Rightarrow> exn + unit"

definition subprocess_run :: "tools \<Rightarrow> pystr option list \<Rightarrow> files \<Rightarrow> exn + files" where
  "subprocess_run os args fs =
     (if None \<in> set args then Inl TypeError else run_tool os (map the args) fs)"

text \<open>
  \<open>download_spotify_cover\<close> (spotisaver.py 52-62): \<open>None\<close> when the album of the track lists
  no image, else the first image is fetched and written to \<open>cover.jpg\<close> in the temporary
  folder.
\<close>

definition last_segment :: "pystr \<Rightarrow> pystr" where
  "last_segment s = rev (takeWhile (\<lambda>c. c \<noteq> of_char CHR '':'') (rev s))"

definition download_spotify_cover ::
    "catalog \<Rightarrow> tools \<Rightarrow> cell \<Rightarrow> pystr \<Rightarrow> files \<Rightarrow> exn + (pystr option \<times> files)" where
  "download_spotify_cover sp os uri_value tmp fs =
     (case uri_value of
        S uri \<Rightarrow>
          (case sp_track sp (last_segment uri) of
             Inl e \<Rightarrow> Inl e
           | Inr track \<Rightarrow>
               (case album_images (track_album track) of
                  [] \<Rightarrow> Inr (None, fs)
                | url # _ \<Rightarrow>
                    (let path = path_join tmp (ustr ''cover.jpg'') in
                     case http_get os url of
                       Inl e \<Rightarrow> Inl e
                     | Inr _ \<Rightarrow> Inr (Some path, path # fs))))
      | _ \<Rightarrow> Inl AttributeError)"

text \<open>
  \<open>download_track\<close> (spotisaver.py 389-475). \<open>in_tmp\<close> is the body of the
  \<^verbatim>\<open>with tempfile.TemporaryDirectory() as tmp\<close> block; leaving the block, also by an exception,
  removes the folder (\<open>cleanup\<close>). The result is the exception raised, if any, and the files
  and log lines left behind.
\<close>

record config =
  format_var :: pystr
  bitrate_var :: pystr
  overwrite_var :: pystr
  output_dir :: pystr
  parallel_var :: int

record dl_state =
  dl_files :: files
  dl_log :: "pystr list"

definition cleanup :: "pystr \<Rightarrow> files \<Rightarrow> files" where
  "cleanup tmp fs = filter (\<lambda>p. \<not> (p = tmp \<or> take (Suc (length tmp)) p = tmp @ ustr ''/'')) fs"

definition yt_dlp_cmd :: "pystr \<Rightarrow> pystr \<Rightarrow> pystr \<Rightarrow> pystr \<Rightarrow> pystr option list" where
  "yt_dlp_cmd tmp artist title fmt =
     map Some [ustr ''yt-dlp'', ustr ''--extractor-args'', ustr ''youtube:music'',
       ustr ''--no-keep-video'', ustr ''--rm-cache-dir'', ustr ''--no-post-overwrites'',
       ustr ''--no-playlist'', ustr ''--no-warnings'', ustr ''--paths'', tmp,
       ustr ''-o'', ustr ''source.%(ext)s'',
       ustr ''ytsearch1:'' @ artist @ ustr '' - '' @ title,
       ustr ''-x'', ustr ''--audio-format'', fmt]"

definition ffmpeg_cmd ::
    "pystr \<Rightarrow> pystr option \<Rightarrow> pystr \<Rightarrow> pystr \<Rightarrow> pystr \<Rightarrow> pystr \<Rightarrow> pystr \<Rightarrow> cell \<Rightarrow> cell
      \<Rightarrow> pystr \<Rightarrow> pystr \<Rightarrow> pystr \<Rightarrow> pystr option list" where
  "ffmpeg_cmd audio_path cover title artist album release_date year genres label uri fmt out =
     (let ff = [Some (ustr ''ffmpeg''), Some (ustr ''-y''),
                Some (ustr ''-i''), Some audio_path,
                Some (ustr ''-i''), cover,
                Some (ustr ''-map''), Some (ustr ''0:a''),
                Some (ustr ''-map''), Some (ustr ''1:v''),
                Some (ustr ''-c:a''), Some (ustr ''copy''),
                Some (ustr ''-c:v''), Some (ustr ''mjpeg''),
                Some (ustr ''-metadata''), Some (ustr ''title='' @ title),
                Some (ustr ''-metadata''), Some (ustr ''artist='' @ artist),
                Some (ustr ''-metadata''), Some (ustr ''album='' @ album),
                Some (ustr ''-metadata''),
                Some (if release_date \<noteq> [] then ustr ''date='' @ release_date else []),
                Some (ustr ''-metadata''),
                Some (if year \<noteq> [] then ustr ''year='' @ year else []),
                Some (ustr ''-metadata''),
                Some (if truthy genres then ustr ''genre='' @ py_str genres else []),
                Some (ustr ''-metadata''),
                Some (if truthy label then ustr ''publisher='' @ py_str label else []),
                Some (ustr ''-metadata''), Some (ustr ''comment=Spotify URI: '' @ uri),
                Some (ustr ''-metadata:s:v''), Some (ustr ''title=Album cover''),
                Some (ustr ''-metadata:s:v''), Some (ustr ''comment=Cover (front)'')];
          ff = filter (\<lambda>x. x \<noteq> Some []) ff;
          ff = (if fmt = ustr ''mp3''
                then ff @ [Some (ustr ''-id3v2_version''), Some (ustr ''3'')] else ff)
      in ff @ [Some out])"

definition in_tmp ::
    "catalog \<Rightarrow> tools \<Rightarrow> pystr \<Rightarrow> dl_row \<Rightarrow> pystr \<Rightarrow> pystr \<Rightarrow> dl_state
      \<Rightarrow> exn option \<times> dl_state" where
  "in_tmp sp os tmp row fmt out st =
     (let artist = py_str (row_get row (ustr ''Artist Name(s)''));
          title = py_str (row_get row (ustr ''Track Name''));
          album = py_str (row_get row (ustr ''Album Name''));
          uri = row_get row (ustr ''Track URI'');
          genres = row_get row (ustr ''Genres'');
          label = row_get row (ustr ''Record Label'');
          release_date = py_str (row_get row (ustr ''Release Date''));
          year = (if release_date \<noteq> [] then take 4 release_date else []);
          audio_path = path_join tmp (ustr ''source.'' @ fmt)
      in case subprocess_run os (yt_dlp_cmd tmp artist title fmt) (dl_files st) of
           Inl e \<Rightarrow> (Some e, st)
         | Inr fs1 \<Rightarrow>
             (case download_spotify_cover sp os uri tmp fs1 of
                Inl e \<Rightarrow> (Some e, st\<lparr>dl_files := fs1\<rparr>)
              | Inr (cover, fs2) \<Rightarrow>
                  (case subprocess_run os
                          (ffmpeg_cmd audio_path cover title artist album release_date year
                             genres label (py_str uri) fmt out) fs2 of
                     Inl e \<Rightarrow> (Some e, st\<lparr>dl_files := fs2\<rparr>)
                   | Inr fs3 \<Rightarrow>
                       (let st' = \<lparr>dl_files = fs3,
                              dl_log = dl_log st @ [ustr ''Finished: '' @ artist @ ustr '' - '' @ title]\<rparr>
                        in if out \<notin> set fs3
                           then (Some (RuntimeError (ustr ''Final output file was not created'')), st')
                           else (None, st')))))"

definition download_track ::
    "catalog \<Rightarrow> tools \<Rightarrow> config \<Rightarrow> pystr \<Rightarrow> dl_row \<Rightarrow> dl_state \<Rightarrow> exn option \<times> dl_state" where
  "download_track sp os cfg tmp row st =
     (let artist = py_str (row_get row (ustr ''Artist Name(s)''));
          title = py_str (row_get row (ustr ''Track Name''));
          fmt = format_var cfg;
          overwrite = overwrite_var cfg;
          filename = build_safe_filename artist title fmt;
          out = path_join (output_dir cfg) filename
      in if overwrite = ustr ''skip'' \<and> out \<in> set (dl_files st)
         then (None, st\<lparr>dl_log := dl_log st @ [ustr ''Skipped (exists): '' @ filename]\<rparr>)
         else (case in_tmp sp os tmp row fmt out st of
                 (r, st') \<Rightarrow> (r, st'\<lparr>dl_files := cleanup tmp (dl_files st')\<rparr>)))"


text \<open>
  \<open>download_track\<close> of the older downloader.py (lines 199-265), which copies the plain audio
  file to the output folder when there is no cover (lines 237-239).
\<close>

definition listdir :: "pystr \<Rightarrow> files \<Rightarrow> pystr list" where
  "listdir d fs =
     map (drop (Suc (length d)))
       (filter (\<lambda>p. take (Suc (length d)) p = d @ ustr ''/''
                  \<and> of_char CHR ''/'' \<notin> set (drop (Suc (length d)) p)) fs)"

definition download_track_old ::
    "catalog \<Rightarrow> tools \<Rightarrow> pystr \<Rightarrow> pystr \<Rightarrow> pystr \<Rightarrow> cell \<Rightarrow> pystr \<Rightarrow> pystr \<Rightarrow> files
      \<Rightarrow> exn option \<times> files" where
  "download_track_old sp os out_dir tmp query uri_value fmt overwrite_mode fs =
     (let safe_name = replace_char 47 95 (query @ ustr ''.'' @ fmt);
          final_path = path_join out_dir safe_name
      in if overwrite_mode = ustr ''skip'' \<and> final_path \<in> set fs then (None, fs)
         else
           (case
              (let audio_out = path_join tmp (ustr ''audio.%(ext)s'');
                   cmd = [ustr ''yt-dlp'', ustr ''--extractor-args'', ustr ''youtube:music'',
                          ustr ''ytsearch1:'' @ query, ustr ''-x'', ustr ''--add-metadata'',
                          ustr ''-o'', audio_out]
                         @ (if fmt = ustr ''mp3''
                            then [ustr ''--audio-format'', ustr ''mp3'',
                                  ustr ''--audio-quality'', ustr ''0'']
                            else [ustr ''--audio-format'', fmt])
               in case subprocess_run os (map Some cmd) fs of
                    Inl e \<Rightarrow> (Some e, fs)
                  | Inr fs1 \<Rightarrow>
                      (case filter (\<lambda>f. take 6 f = ustr ''audio.'') (listdir tmp fs1) of
                         [] \<Rightarrow> (Some StopIteration, fs1)
                       | audio_file # _ \<Rightarrow>
                           (let audio_path = path_join tmp audio_file in
                            case download_spotify_cover sp os uri_value tmp fs1 of
                              Inl e \<Rightarrow> (Some e, fs1)
                            | Inr (cover_path, fs2) \<Rightarrow>
                                (case cover_path of
                                   None \<Rightarrow> (None, path_join out_dir audio_file # fs2)
                                 | Some c \<Rightarrow>
                                     (let ffmpeg_cmd =
                                        [ustr ''ffmpeg'', ustr ''-y'', ustr ''-i'', audio_path,
                                         ustr ''-i'', c, ustr ''-map'', ustr ''0:a'',
                                         ustr ''-map'', ustr ''1:v'', ustr ''-c:a'', ustr ''copy'',
                                         ustr ''-c:v'', ustr ''mjpeg'',
                                         ustr ''-metadata:s:v'', ustr ''title=Album cover'',
                                         ustr ''-metadata:s:v'', ustr ''comment=Cover (front)'']
                                        @ (if fmt = ustr ''mp3''
                                           then [ustr ''-id3v2_version'', ustr ''3''] else [])
                                        @ [final_path]
                                      in case subprocess_run os (map Some ffmpeg_cmd) fs2 of
                                           Inl e \<Rightarrow> (Some e, fs2)
                                         | Inr fs3 \<Rightarrow> (None, fs3))))))
            of (r, fs') \<Rightarrow> (r, cleanup tmp fs')))"

text \<open>Example data: tools that always work, a CSV row, and a catalog that lists cover art.\<close>

definition example_tools :: tools where
  "example_tools =
     \<lparr>run_tool =
        (\<lambda>args fs.
           if take 1 args = [ustr ''yt-dlp'']
           then Inr ((if ustr ''source.%(ext)s'' \<in> set args
                      then ustr ''/tmp/job/source.mp3'' else ustr ''/tmp/job/audio.mp3'') # fs)
           else Inr (last args # fs)),
      http_get = (\<lambda>url. Inr ())\<rparr>"

definition example_row :: dl_row where
  "example_row = map_of
     [(ustr ''Track URI'', S (ustr ''spotify:track:t1'')),
      (ustr ''Track Name'', S (ustr ''Smooth Operator'')),
      (ustr ''Album Name'', S (ustr ''Diamond Life'')),
      (ustr ''Artist Name(s)'', S (ustr ''Sade'')),
      (ustr ''Release Date'', S (ustr ''1984-07-16'')),
      (ustr ''Genres'', S (ustr ''soul, pop'')),
      (ustr ''Record Label'', S (ustr ''Epic''))]"

definition example_config :: config where
  "example_config = \<lparr>format_var = ustr ''mp3'', bitrate_var = ustr ''320'',
     overwrite_var = ustr ''skip'', output_dir = ustr ''/music'', parallel_var = 2\<rparr>"

definition art_catalog :: catalog where
  "art_catalog = (example_catalog (ustr ''Mix'') [] [])
     \<lparr>sp_track := (\<lambda>i. Inr ((example_track i)
        \<lparr>track_album := example_album\<lparr>album_images := [ustr ''https://i.scdn.co/image/1'']\<rparr>\<rparr>))\<rparr>"


section \<open>The download run\<close>

text \<open>
  \<open>run_dl\<close> (spotisaver.py 347-386), as seen by the thread that runs it. What other threads do
  enters as three parameters of a run:
  \<^item> \<open>stop k\<close> is what the k-th call of \<open>self.stop_event.is_set()\<close> returns (\<open>stop_dl\<close> sets the
    event from the GUI thread at any moment);
  \<^item> \<open>job i row\<close> is the exception raised by \<open>download_track\<close> for the i-th row, if any;
  \<^item> \<open>as_completed\<close> is the order in which the futures complete, a rearrangement of the
    submitted futures.

  \<open>submit_jobs\<close> is the first loop and \<open>collect\<close> the second. Leaving the \<open>with\<close> block shuts the
  executor down with \<open>wait=True\<close>: every submitted job has run when the block is left,
  collected or not (\<open>executed\<close>). \<open>ThreadPoolExecutor\<close> raises ValueError when \<open>max_workers\<close>
  is not positive. \<open>self.start_btn\<close> is assigned nowhere in spotisaver.py, so line 385 raises
  AttributeError when it is reached (\<open>raised\<close>).
\<close>

datatype log_msg = Starting int | Error exn

datatype status = Idle | Progress nat nat | Done

record run_state =
  total :: nat
  progress_maximum :: nat
  progress_value :: nat
  dl_status :: status
  run_log :: "log_msg list"
  completed :: nat
  submitted :: "dl_row list"
  executed :: "dl_row list"
  raised :: "exn option"

type_synonym future = "nat \<times> exn option"

definition as_completed_ok :: "(future list \<Rightarrow> future list) \<Rightarrow> bool" where
  "as_completed_ok as_completed = (\<forall>fs. mset (as_completed fs) = mset fs)"

fun submit_jobs :: "(nat \<Rightarrow> bool) \<Rightarrow> nat \<Rightarrow> 'a list \<Rightarrow> 'a list \<times> nat" where
  "submit_jobs stop k [] = ([], k)"
| "submit_jobs stop k (row # rows) =
     (if stop k then ([], Suc k)
      else (case submit_jobs stop (Suc k) rows of (fs, k') \<Rightarrow> (row # fs, k')))"

fun collect :: "(nat \<Rightarrow> bool) \<Rightarrow> nat \<Rightarrow> future list \<Rightarrow> run_state \<Rightarrow> run_state \<times> nat" where
  "collect stop k [] st = (st, k)"
| "collect stop k (future # futures) st =
     (if stop k then (st, Suc k)
      else collect stop (Suc k) futures
             (st\<lparr>run_log := run_log st @ (case snd future of None \<Rightarrow> [] | Some e \<Rightarrow> [Error e]),
                 completed := Suc (completed st),
                 progress_value := Suc (completed st),
                 dl_status := Progress (Suc (completed st)) (total st)\<rparr>))"

definition run_dl ::
    "(nat \<Rightarrow> bool) \<Rightarrow> (future list \<Rightarrow> future list) \<Rightarrow> (nat \<Rightarrow> dl_row \<Rightarrow> exn option)
      \<Rightarrow> config \<Rightarrow> dl_row list \<Rightarrow> run_state" where
  "run_dl stop as_completed job cfg df =
     (let n = length df;
          max_workers = parallel_var cfg;
          st = \<lparr>total = n, progress_maximum = n, progress_value = 0, dl_status = Idle,
                run_log = [Starting max_workers], completed = 0, submitted = [],
                executed = [], raised = None\<rparr>
      in if max_workers \<le> 0 then st\<lparr>raised := Some ValueError\<rparr>
         else
           (case submit_jobs stop 0 (zip [0..<n] df) of
              (jobs, k) \<Rightarrow>
                (case collect stop k (as_completed (map (\<lambda>(i, row). (i, job i row)) jobs))
                        (st\<lparr>submitted := map snd jobs\<rparr>) of
                   (st, k) \<Rightarrow>
                     (let st = st\<lparr>executed := map snd jobs\<rparr>;
                          st = (if \<not> stop k then st\<lparr>dl_status := Done\<rparr> else st)
                      in st\<lparr>raised := Some AttributeError\<rparr>))))"

text \<open>The ERROR lines that collecting a list of futures writes to the log.\<close>

definition error_lines :: "future list \<Rightarrow> log_msg list" where
  "error_lines futs = concat (map (\<lambda>f. case snd f of None \<Rightarrow> [] | Some e \<Rightarrow> [Error e]) futs)"

text \<open>The state of a run before the executor is created.\<close>

definition start_state :: "config \<Rightarrow> dl_row list \<Rightarrow> run_state" where
  "start_state cfg df = \<lparr>total = length df, progress_maximum = length df, progress_value = 0,
     dl_status = Idle, run_log = [Starting (parallel_var cfg)], completed = 0, submitted = [],
     executed = [], raised = None\<rparr>"

text \<open>A job of the example runs: \<open>download_track\<close> on a row, in an empty file system.\<close>

definition example_job :: "catalog \<Rightarrow> nat \<Rightarrow> dl_row \<Rightarrow> exn option" where
  "example_job sp i row =
     fst (download_track sp example_tools example_config (ustr ''/tmp/job'') row
            \<lparr>dl_files = [], dl_log = []\<rparr>)"


section \<open>The filename sanitizer\<close>

lemma ascii_letters_codes: "ascii_letters = [97..<123] @ [65..<91]"
  by (simp add: ascii_letters_def ustr_def upt_rec)

lemma digits_codes: "digits = [48..<58]"
  by (simp add: digits_def ustr_def upt_rec)

lemma valid_range:
  "c \<in> set valid \<longleftrightarrow>
     (97 \<le> c \<and> c \<le> 122) \<or> (65 \<le> c \<and> c \<le> 90) \<or> (48 \<le> c \<and> c \<le> 57)
     \<or> c = 45 \<or> c = 95 \<or> c = 46 \<or> c = 40 \<or> c = 41 \<or> c = 32"
proof -
  have "c \<in> set valid \<longleftrightarrow>
      c \<in> set (ustr ''-_.() '') \<or> c \<in> {97..<123} \<or> c \<in> {65..<91} \<or> c \<in> {48..<58}"
    unfolding valid_def ascii_letters_codes digits_codes
    by (simp only: set_append Un_iff set_upt disj_assoc)
  moreover have "c \<in> set (ustr ''-_.() '') \<longleftrightarrow>
      c = 45 \<or> c = 95 \<or> c = 46 \<or> c = 40 \<or> c = 41 \<or> c = 32"
    by (simp add: ustr_def)
  ultimately show ?thesis
    unfolding atLeastLessThan_iff by arith
qed

lemma valid_not_space:
  assumes "c \<in> set valid" and "c \<noteq> 32"
  shows "\<not> py_isspace c"
proof -
  from assms have "33 \<le> c \<and> c \<le> 122"
    unfolding valid_range by arith
  then show ?thesis
    by (auto simp: py_isspace_def whitespace_def)
qed

lemma set_strip: "set (strip s) \<subseteq> set s"
proof -
  have "set (strip s) \<subseteq> set (dropWhile py_isspace s)"
    unfolding strip_def using set_dropWhileD [of _ py_isspace "rev (dropWhile py_isspace s)"]
    by auto
  also have "\<dots> \<subseteq> set s"
    using set_dropWhileD [of _ py_isspace s] by auto
  finally show ?thesis .
qed

lemma strip_no_space:
  assumes "\<forall>c \<in> set s. \<not> py_isspace c"
  shows "strip s = s"
proof -
  have a: "dropWhile py_isspace s = s"
    using assms by (cases s) auto
  have "dropWhile py_isspace (rev s) = rev s"
    using assms by (cases "rev s") (auto simp: rev_eq_Cons_iff)
  with a show ?thesis
    by (simp add: strip_def)
qed

lemma sanitize_filename_chars:
  "set (sanitize_filename x) \<subseteq> set valid - {32}"
proof
  fix c
  assume "c \<in> set (sanitize_filename x)"
  then obtain d where d: "d \<in> set (strip (filter (\<lambda>c. c \<in> set valid) x))"
    and c: "c = (if d = 32 then 95 else d)"
    by (auto simp: sanitize_filename_def replace_char_def)
  from d set_strip have "d \<in> set (filter (\<lambda>c. c \<in> set valid) x)"
    by blast
  then have "d \<in> set valid"
    by simp
  moreover have "95 \<in> set valid"
    by (simp add: valid_range)
  ultimately show "c \<in> set valid - {32}"
    using c by auto
qed

lemma sanitize_filename_fixed:
  assumes "set y \<subseteq> set valid - {32}"
  shows "sanitize_filename y = y"
proof -
  have f: "filter (\<lambda>c. c \<in> set valid) y = y"
    using assms by (auto intro: filter_True)
  have "\<forall>c \<in> set y. \<not> py_isspace c"
    using assms valid_not_space by blast
  then have s: "strip y = y"
    by (rule strip_no_space)
  have r: "replace_char 32 95 y = y"
    unfolding replace_char_def using assms by (intro map_idI) auto
  show ?thesis
    by (simp add: sanitize_filename_def f s r)
qed

lemma sanitize_filename_example:
  "sanitize_filename (ustr ''Sade: Best Hits? (Live)'') = ustr ''Sade_Best_Hits_(Live)''"
  by (simp add: sanitize_filename_def ustr_def valid_range strip_def replace_char_def
      py_isspace_def whitespace_def)

text \<open>
  Claim C9. The filename sanitizer is idempotent: sanitizing an already sanitized name
  changes nothing, for every input string. On the name "Sade: Best Hits? (Live)" the
  result holds neither a colon (code point 58) nor a question mark (code point 63).
\<close>

theorem sanitize_filename_idempotent:
  "sanitize_filename (sanitize_filename x) = sanitize_filename x
   \<and> of_char CHR '':'' \<notin> set (sanitize_filename (ustr ''Sade: Best Hits? (Live)''))
   \<and> of_char CHR ''?'' \<notin> set (sanitize_filename (ustr ''Sade: Best Hits? (Live)''))"
proof -
  have "sanitize_filename (sanitize_filename x) = sanitize_filename x"
    using sanitize_filename_chars by (rule sanitize_filename_fixed)
  moreover have "of_char CHR '':'' \<notin> set (sanitize_filename (ustr ''Sade: Best Hits? (Live)''))"
    unfolding sanitize_filename_example by (simp add: ustr_def)
  moreover have "of_char CHR ''?'' \<notin> set (sanitize_filename (ustr ''Sade: Best Hits? (Live)''))"
    unfolding sanitize_filename_example by (simp add: ustr_def)
  ultimately show ?thesis
    by blast
qed

theorem sanitize_filename_idempotent_witness:
  "sanitize_filename (sanitize_filename (ustr '' My: Mix ''))
     = ustr ''My_Mix''"
proof -
  have "sanitize_filename (ustr '' My: Mix '') = ustr ''My_Mix''"
    by (simp add: sanitize_filename_def ustr_def valid_range strip_def replace_char_def
        py_isspace_def whitespace_def)
  with sanitize_filename_idempotent [of "ustr '' My: Mix ''"] show ?thesis
    by simp
qed

text \<open>
  Claim C10. Every character of the sanitizer's output is an ASCII letter, an ASCII
  digit or one of \<open>- _ . ( )\<close>; in particular no space and no non-ASCII character
  survives, and a name made of non-ASCII characters only is sanitized to the empty
  string.
\<close>

theorem sanitize_filename_charset:
  "(\<forall>c \<in> set (sanitize_filename x).
      (97 \<le> c \<and> c \<le> 122) \<or> (65 \<le> c \<and> c \<le> 90) \<or> (48 \<le> c \<and> c \<le> 57)
      \<or> c \<in> set (ustr ''-_.()''))
   \<and> (\<forall>c \<in> set (sanitize_filename x). c < 128)
   \<and> ((\<forall>c \<in> set x. 128 \<le> c) \<longrightarrow> sanitize_filename x = [])"
proof (intro conjI ballI impI)
  fix c
  assume "c \<in> set (sanitize_filename x)"
  with sanitize_filename_chars have c: "c \<in> set valid" "c \<noteq> 32"
    by auto
  then show "(97 \<le> c \<and> c \<le> 122) \<or> (65 \<le> c \<and> c \<le> 90) \<or> (48 \<le> c \<and> c \<le> 57)
      \<or> c \<in> set (ustr ''-_.()'')"
    unfolding valid_range by (auto simp: ustr_def)
  from c show "c < 128"
    unfolding valid_range by arith
next
  assume "\<forall>c \<in> set x. 128 \<le> c"
  then have "\<forall>c \<in> set x. c \<notin> set valid"
    unfolding valid_range by fastforce
  then have "filter (\<lambda>c. c \<in> set valid) x = []"
    by (simp add: filter_empty_conv)
  then show "sanitize_filename x = []"
    by (simp add: sanitize_filename_def strip_def replace_char_def)
qed

theorem sanitize_filename_charset_witness:
  "sanitize_filename [1052, 1091, 1079, 1099, 1082, 1072] = []
   \<and> sanitize_filename (ustr ''a b'') = ustr ''a_b''
   \<and> (of_char CHR ''_'' :: nat) < 128"
proof -
  have h: "\<forall>c \<in> set [1052, 1091, 1079, 1099, 1082, 1072 :: nat]. 128 \<le> c"
    by simp
  have e: "sanitize_filename (ustr ''a b'') = ustr ''a_b''"
    by (simp add: sanitize_filename_def ustr_def valid_range strip_def replace_char_def
        py_isspace_def whitespace_def)
  show ?thesis
    using h e sanitize_filename_charset [of "[1052, 1091, 1079, 1099, 1082, 1072]"]
      sanitize_filename_charset [of "ustr ''a b''"]
    by (simp add: ustr_def)
qed


section \<open>Pagination\<close>

lemma paginated_head: "paginated sp p (its # rest) \<Longrightarrow> page_items p = its"
  by (cases rest) auto

lemma next_pages_paginated:
  "paginated sp p pages \<Longrightarrow> next_pages sp p acc = Some (Inr (acc @ concat (tl pages)))"
proof (induction sp p pages arbitrary: acc rule: paginated.induct)
  case (1 sp p)
  then show ?case by simp
next
  case (2 sp p its)
  then show ?case
    by (subst next_pages.simps) (simp add: truthy_next_def split: option.splits)
next
  case (3 sp p its v va)
  from "3.prems" obtain u p' where u: "page_next p = Some u" "u \<noteq> []"
    and g: "sp_get sp u = Inr p'" and r: "paginated sp p' (v # va)"
    by (auto simp: truthy_next_def split: option.splits sum.splits)
  have "next_pages sp p acc = next_pages sp p' (acc @ page_items p')"
    by (subst next_pages.simps) (simp add: u g)
  also have "\<dots> = Some (Inr ((acc @ page_items p') @ concat (tl (v # va))))"
    using "3.IH" [of p' "acc @ page_items p'"] u g r by simp
  finally show ?case
    using paginated_head [OF r] by simp
qed

lemma get_playlist_tracks_paginated:
  assumes "sp_playlist_tracks sp pid = Inr p" and "paginated sp p pages"
  shows "get_playlist_tracks sp pid = Some (Inr (concat pages))"
proof -
  from assms(2) obtain its rest where pages: "pages = its # rest"
    by (cases pages) auto
  with assms(2) have "page_items p = its"
    using paginated_head by blast
  then show ?thesis
    using next_pages_paginated [OF assms(2), of "page_items p"] assms(1) pages
    by (simp add: get_playlist_tracks_def)
qed

lemma export_rows_length:
  "export_rows iter sp ts = Inr data \<Longrightarrow> length data = length ts"
  by (induction ts arbitrary: data) (auto split: sum.splits)

lemma export_rows_nth:
  "export_rows iter sp ts = Inr data \<Longrightarrow> i < length ts \<Longrightarrow>
     export_row iter sp (ts ! i) = Inr (data ! i)"
proof (induction ts arbitrary: data i)
  case Nil
  then show ?case by simp
next
  case (Cons t ts)
  then show ?case
    by (cases i) (auto split: sum.splits)
qed

text \<open>
  Claim C3. When the catalog serves a playlist as \<open>P\<close> pages holding \<open>N\<close> entries in
  all, the pagination loop returns exactly the concatenation of the pages: \<open>N\<close> entries in
  playlist order, nothing dropped or repeated at a page boundary. spotisave.py turns them
  into \<open>N\<close> records, the i-th from the i-th entry, and whenever the row building of
  export_csv succeeds it yields \<open>N\<close> rows, the i-th from the i-th entry, which are the
  rows written.
\<close>

theorem playlist_tracks_complete:
  assumes "sp_playlist sp pid = Inr name"
    and "sp_playlist_tracks sp pid = Inr p"
    and "paginated sp p pages"
  shows "get_playlist_tracks sp pid = Some (Inr (concat pages))
    \<and> playlist_data sp pid = Some (Inr (map extract_track_info (concat pages)))
    \<and> length (map extract_track_info (concat pages)) = sum_list (map length pages)
    \<and> (\<forall>data. export_rows iter sp (concat pages) = Inr data \<longrightarrow>
          length data = sum_list (map length pages)
          \<and> (\<forall>i < length data. export_row iter sp (concat pages ! i) = Inr (data ! i))
          \<and> (\<exists>path. export_task iter sp pid out files = Some (Inr (path, files(path \<mapsto> data)))))"
proof -
  have t: "get_playlist_tracks sp pid = Some (Inr (concat pages))"
    using assms(2,3) by (rule get_playlist_tracks_paginated)
  have d: "playlist_data sp pid = Some (Inr (map extract_track_info (concat pages)))"
    by (simp add: playlist_data_def assms(1) t)
  have l: "length (concat pages) = sum_list (map length pages)"
    by (simp add: length_concat)
  have e: "length data = sum_list (map length pages)
      \<and> (\<forall>i < length data. export_row iter sp (concat pages ! i) = Inr (data ! i))
      \<and> (\<exists>path. export_task iter sp pid out files = Some (Inr (path, files(path \<mapsto> data))))"
    if r: "export_rows iter sp (concat pages) = Inr data" for data
  proof (intro conjI)
    show "length data = sum_list (map length pages)"
      using export_rows_length [OF r] l by simp
    show "\<forall>i < length data. export_row iter sp (concat pages ! i) = Inr (data ! i)"
      using export_rows_nth [OF r] export_rows_length [OF r] by simp
    show "\<exists>path. export_task iter sp pid out files = Some (Inr (path, files(path \<mapsto> data)))"
      by (simp add: export_task_def assms(1) t r Let_def)
  qed
  from t d l e show ?thesis
    by simp
qed


theorem playlist_tracks_complete_witness:
  "get_playlist_tracks
      (example_catalog (ustr ''Mix'') [example_item (ustr ''t1''), example_item (ustr ''t2'')]
         [example_item (ustr ''t3''), example_item (ustr ''t4'')]) (ustr ''pl'')
     = Some (Inr [example_item (ustr ''t1''), example_item (ustr ''t2''),
                  example_item (ustr ''t3''), example_item (ustr ''t4'')])
   \<and> playlist_data
      (example_catalog (ustr ''Mix'') [example_item (ustr ''t1''), example_item (ustr ''t2'')]
         [example_item (ustr ''t3''), example_item (ustr ''t4'')]) (ustr ''pl'')
     = Some (Inr (map extract_track_info
          [example_item (ustr ''t1''), example_item (ustr ''t2''),
           example_item (ustr ''t3''), example_item (ustr ''t4'')]))"
proof -
  let ?c = "example_catalog (ustr ''Mix'') [example_item (ustr ''t1''), example_item (ustr ''t2'')]
         [example_item (ustr ''t3''), example_item (ustr ''t4'')]"
  let ?p = "\<lparr>page_items = [example_item (ustr ''t1''), example_item (ustr ''t2'')],
     page_next = Some (ustr ''offset=2'')\<rparr>"
  have h1: "sp_playlist ?c (ustr ''pl'') = Inr (ustr ''Mix'')"
    by (simp add: example_catalog_def)
  have h2: "sp_playlist_tracks ?c (ustr ''pl'') = Inr ?p"
    by (simp add: example_catalog_def)
  have h3: "paginated ?c ?p [[example_item (ustr ''t1''), example_item (ustr ''t2'')],
      [example_item (ustr ''t3''), example_item (ustr ''t4'')]]"
    by (simp add: example_catalog_def truthy_next_def ustr_def)
  from playlist_tracks_complete [OF h1 h2 h3] show ?thesis
    by simp
qed

section \<open>Entries without a track\<close>

lemma export_row_absent: "item_track t = None \<Longrightarrow> export_row iter sp t = Inl TypeError"
  by (simp add: export_row_def)

lemma export_rows_present:
  "export_rows iter sp ts = Inr data \<Longrightarrow> t \<in> set ts \<Longrightarrow> item_track t \<noteq> None"
proof (induction ts arbitrary: data)
  case Nil
  then show ?case by simp
next
  case (Cons a ts)
  from Cons.prems(1) obtain r rs where r: "export_row iter sp a = Inr r"
    and rs: "export_rows iter sp ts = Inr rs"
    by (auto split: sum.splits)
  show ?case
  proof (cases "t = a")
    case True
    with r show ?thesis
      by (cases "item_track a") (simp_all add: export_row_def)
  next
    case False
    with Cons.prems(2) have "t \<in> set ts"
      by simp
    with Cons.IH [OF rs] show ?thesis .
  qed
qed

lemma track_genres_example:
  "track_genres (example_catalog n p1 p2) (track_artists (example_track t)) []
     = Inr [ustr ''pop'', ustr ''soul'', ustr ''jazz'']"
  by (simp add: example_catalog_def example_track_def set_update_def set_add_def ustr_def)

text \<open>
  Claim C4 (fails on export_csv of spotisaver.py). A playlist whose second entry has no
  track (\<open>"track": null\<close>, a removed track) makes the export raise TypeError at
  \<open>tr["artists"]\<close>: no row is emitted for the entry and no file is written. The older
  extract_track_info of csvsaver.py returns the empty record \<open>{}\<close> for the same entry, and
  the one of spotisave.py a record of empty fields.
\<close>

theorem export_task_absent_track:
  "export_task remdups
      (example_catalog (ustr ''Mix'') [example_item (ustr ''t1''), removed_item]
         [example_item (ustr ''t3'')]) (ustr ''pl'') (ustr ''/out'') Map.empty
     = Some (Inl TypeError)
   \<and> extract_track_info_old remdups
      (example_catalog (ustr ''Mix'') [example_item (ustr ''t1''), removed_item]
         [example_item (ustr ''t3'')]) removed_item = Inr []
   \<and> extract_track_info removed_item = map (\<lambda>k. (ustr k, Null))
        [''Track Name'', ''Artists'', ''Album'', ''Duration (ms)'', ''Popularity'', ''Track URL'']"
proof -
  let ?c = "example_catalog (ustr ''Mix'') [example_item (ustr ''t1''), removed_item]
         [example_item (ustr ''t3'')]"
  let ?p = "\<lparr>page_items = [example_item (ustr ''t1''), removed_item],
     page_next = Some (ustr ''offset=2'')\<rparr>"
  have h1: "sp_playlist ?c (ustr ''pl'') = Inr (ustr ''Mix'')"
    by (simp add: example_catalog_def)
  have h2: "sp_playlist_tracks ?c (ustr ''pl'') = Inr ?p"
    by (simp add: example_catalog_def)
  have h3: "paginated ?c ?p [[example_item (ustr ''t1''), removed_item],
      [example_item (ustr ''t3'')]]"
    by (simp add: example_catalog_def truthy_next_def ustr_def)
  have t: "get_playlist_tracks ?c (ustr ''pl'')
      = Some (Inr [example_item (ustr ''t1''), removed_item, example_item (ustr ''t3'')])"
    using get_playlist_tracks_paginated [OF h2 h3] by simp
  have r1: "\<exists>r. export_row remdups ?c (example_item (ustr ''t1'')) = Inr r"
    by (simp add: export_row_def example_item_def track_genres_example)
  have r2: "export_row remdups ?c removed_item = Inl TypeError"
    by (simp add: export_row_absent removed_item_def)
  from r1 r2 have "export_rows remdups ?c
      [example_item (ustr ''t1''), removed_item, example_item (ustr ''t3'')] = Inl TypeError"
    by auto
  then have "export_task remdups ?c (ustr ''pl'') (ustr ''/out'') Map.empty = Some (Inl TypeError)"
    by (simp add: export_task_def h1 t)
  moreover have "extract_track_info_old remdups ?c removed_item = Inr []"
    by (simp add: extract_track_info_old_def removed_item_def)
  moreover have "extract_track_info removed_item = map (\<lambda>k. (ustr k, Null))
        [''Track Name'', ''Artists'', ''Album'', ''Duration (ms)'', ''Popularity'', ''Track URL'']"
    by (simp add: extract_track_info_def removed_item_def)
  ultimately show ?thesis
    by blast
qed

section \<open>Genres of a track\<close>

lemma fold_set_add_set: "set (fold set_add xs s) = set s \<union> set xs"
  by (induction xs arbitrary: s) (auto simp: set_add_def)

lemma fold_set_add_distinct: "distinct s \<Longrightarrow> distinct (fold set_add xs s)"
  by (induction xs arbitrary: s) (auto simp: set_add_def)

lemma set_update_set: "set (set_update s xs) = set s \<union> set xs"
  by (simp add: set_update_def fold_set_add_set)

lemma set_update_distinct: "distinct s \<Longrightarrow> distinct (set_update s xs)"
  by (simp add: set_update_def fold_set_add_distinct)

lemma track_genres_result:
  assumes "track_genres sp as acc = Inr g"
  shows "set g = set acc \<union> (\<Union>a \<in> set as. set (projr (sp_artist sp (artist_id a))))
    \<and> (distinct acc \<longrightarrow> distinct g)"
  using assms
proof (induction as arbitrary: acc)
  case Nil
  then show ?case by simp
next
  case (Cons a as)
  from Cons.prems obtain gs where gs: "sp_artist sp (artist_id a) = Inr gs"
    and r: "track_genres sp as (set_update acc gs) = Inr g"
    by (auto split: sum.splits)
  from Cons.IH [OF r] gs show ?case
    by (auto simp: set_update_set set_update_distinct)
qed

lemma track_genres_answers:
  assumes "\<forall>a \<in> set as. sp_artist sp (artist_id a) = Inr (gs a)"
  shows "\<exists>g. track_genres sp as acc = Inr g"
  using assms by (induction as arbitrary: acc) simp_all

lemma track_genres_union:
  assumes "\<forall>a \<in> set as. sp_artist sp (artist_id a) = Inr (gs a)"
  shows "\<exists>g. track_genres sp as [] = Inr g \<and> distinct g
     \<and> set g = (\<Union>a \<in> set as. set (gs a))"
proof -
  from track_genres_answers [OF assms] obtain g where g: "track_genres sp as [] = Inr g"
    by blast
  from track_genres_result [OF g] assms have "distinct g"
    and "set g = (\<Union>a \<in> set as. set (gs a))"
    by simp_all
  with g show ?thesis
    by blast
qed

lemma set_order_ok_perm:
  assumes "set_order_ok iter" and "distinct g"
  shows "distinct (iter g)" and "set (iter g) = set g" and "length (iter g) = length g"
proof -
  from assms have m: "mset (iter g) = mset g"
    by (simp add: set_order_ok_def)
  from m assms(2) show "distinct (iter g)"
    by (metis distinct_count_atmost_1 set_mset_mset)
  from m show "set (iter g) = set g"
    by (rule mset_eq_setD)
  from m show "length (iter g) = length g"
    by (rule mset_eq_length)
qed

lemma genres_lookup:
  "map_of ((ustr ''Track URI'', c1) # (ustr ''Track Name'', c2) # (ustr ''Album Name'', c3)
      # (ustr ''Artist Name(s)'', c4) # (ustr ''Release Date'', c5)
      # (ustr ''Duration (ms)'', c6) # (ustr ''Popularity'', c7) # (ustr ''Explicit'', c8)
      # (ustr ''Added By'', c9) # (ustr ''Added At'', c10) # (ustr ''Genres'', c11) # rest)
     (ustr ''Genres'') = Some c11"
  by (simp add: ustr_def)

lemma other_lookup:
  "k \<noteq> ustr ''Genres'' \<Longrightarrow>
   map_of ((ustr ''Track URI'', c1) # (ustr ''Track Name'', c2) # (ustr ''Album Name'', c3)
      # (ustr ''Artist Name(s)'', c4) # (ustr ''Release Date'', c5)
      # (ustr ''Duration (ms)'', c6) # (ustr ''Popularity'', c7) # (ustr ''Explicit'', c8)
      # (ustr ''Added By'', c9) # (ustr ''Added At'', c10) # (ustr ''Genres'', c11) # rest) k
   = map_of ((ustr ''Track URI'', c1) # (ustr ''Track Name'', c2) # (ustr ''Album Name'', c3)
      # (ustr ''Artist Name(s)'', c4) # (ustr ''Release Date'', c5)
      # (ustr ''Duration (ms)'', c6) # (ustr ''Popularity'', c7) # (ustr ''Explicit'', c8)
      # (ustr ''Added By'', c9) # (ustr ''Added At'', c10) # (ustr ''Genres'', d11) # rest) k"
  by simp

lemma export_row_genres:
  assumes "item_track t = Some tr" and "track_genres sp (track_artists tr) [] = Inr g"
  shows "\<exists>r. export_row iter sp t = Inr r
     \<and> map_of r (ustr ''Genres'') = Some (S (join (ustr '', '') (iter g)))"
  by (simp add: export_row_def assms genres_lookup del: map_of.simps)

lemma extract_track_info_old_genres:
  assumes "item_track t = Some tr" and "track_genres sp (track_artists tr) [] = Inr g"
  shows "\<exists>r. extract_track_info_old iter sp t = Inr r
     \<and> map_of r (ustr ''Genres'') = Some (S (join (ustr '', '') (iter g)))"
  by (simp add: extract_track_info_old_def assms genres_lookup del: map_of.simps)

lemma export_row_example:
  "export_row iter (example_catalog n p1 p2) (example_item t)
     = Inr ([(ustr ''Track URI'', S (ustr ''spotify:track:'' @ t)),
             (ustr ''Track Name'', S t),
             (ustr ''Album Name'', S (ustr ''Promise'')),
             (ustr ''Artist Name(s)'', S (ustr ''Sade, Guest'')),
             (ustr ''Release Date'', S (ustr ''1985-11-04'')),
             (ustr ''Duration (ms)'', I 1000),
             (ustr ''Popularity'', I 50),
             (ustr ''Explicit'', B False),
             (ustr ''Added By'', S (ustr ''u1'')),
             (ustr ''Added At'', S (ustr ''2024-01-01'')),
             (ustr ''Genres'', S (join (ustr '', '')
                (iter [ustr ''pop'', ustr ''soul'', ustr ''jazz'']))),
             (ustr ''Record Label'', S (ustr ''Epic''))]
            @ map (\<lambda>k. (k, I 0)) feature_columns)"
proof -
  have t: "item_track (example_item t) = Some (example_track t)"
    by (simp add: example_item_def)
  show ?thesis
    unfolding export_row_def t option.case track_genres_example sum.case
    by (simp add: example_item_def example_track_def example_album_def ustr_def)
qed

lemma example_artists:
  "\<forall>a \<in> set (track_artists (example_track n)).
     sp_artist (example_catalog m p1 p2) (artist_id a)
       = Inr (if artist_id a = ustr ''a1'' then [ustr ''pop'', ustr ''soul'']
              else [ustr ''pop'', ustr ''jazz''])"
  by (simp add: example_track_def example_catalog_def ustr_def)

lemma set_order_ok_id: "set_order_ok (\<lambda>s. s)"
  by (simp add: set_order_ok_def)

lemma set_order_ok_rev: "set_order_ok rev"
  by (simp add: set_order_ok_def)

text \<open>
  Claim C6. When the catalog answers for every artist of a track, the Genres field of the
  track's row (in export_csv of spotisaver.py and in extract_track_info of csvsaver.py) is
  the comma-space join of a list that holds every genre of every artist of the track and
  nothing else, each genre once; the list is what an iteration over the set built by
  \<open>genres.update\<close> yields. A track whose artists are the same in another order gets a field
  joining the same genres, each once. Two artists sharing one genre and having one further
  genre each give a field joining exactly three genres.
\<close>

theorem genres_field_union:
  assumes "set_order_ok iter"
    and "item_track t = Some tr"
    and "\<forall>a \<in> set (track_artists tr). sp_artist sp (artist_id a) = Inr (gs a)"
  shows "\<exists>g r r'. track_genres sp (track_artists tr) [] = Inr g
      \<and> export_row iter sp t = Inr r
      \<and> map_of r (ustr ''Genres'') = Some (S (join (ustr '', '') (iter g)))
      \<and> extract_track_info_old iter sp t = Inr r'
      \<and> map_of r' (ustr ''Genres'') = Some (S (join (ustr '', '') (iter g)))
      \<and> distinct (iter g)
      \<and> set (iter g) = (\<Union>a \<in> set (track_artists tr). set (gs a))
      \<and> (\<forall>as'. mset as' = mset (track_artists tr) \<longrightarrow>
            (\<exists>g' q. track_genres sp as' [] = Inr g'
               \<and> export_row iter sp (t\<lparr>item_track := Some (tr\<lparr>track_artists := as'\<rparr>)\<rparr>) = Inr q
               \<and> map_of q (ustr ''Genres'') = Some (S (join (ustr '', '') (iter g')))
               \<and> distinct (iter g') \<and> set (iter g') = set (iter g)))
      \<and> (\<forall>a1 a2 shared x y. track_artists tr = [a1, a2] \<and> set (gs a1) = {shared, x}
            \<and> set (gs a2) = {shared, y} \<and> card {shared, x, y} = 3
          \<longrightarrow> length (iter g) = 3 \<and> set (iter g) = {shared, x, y})"
proof -
  from track_genres_union [OF assms(3)] obtain g
    where g: "track_genres sp (track_artists tr) [] = Inr g" and dg: "distinct g"
      and sg: "set g = (\<Union>a \<in> set (track_artists tr). set (gs a))"
    by blast
  from export_row_genres [OF assms(2) g] obtain r where r: "export_row iter sp t = Inr r"
    and lr: "map_of r (ustr ''Genres'') = Some (S (join (ustr '', '') (iter g)))"
    by blast
  from extract_track_info_old_genres [OF assms(2) g] obtain r'
    where r': "extract_track_info_old iter sp t = Inr r'"
      and lr': "map_of r' (ustr ''Genres'') = Some (S (join (ustr '', '') (iter g)))"
    by blast
  note i = set_order_ok_perm [OF assms(1) dg]
  have d: "distinct (iter g)"
    by (rule i(1))
  have s: "set (iter g) = (\<Union>a \<in> set (track_artists tr). set (gs a))"
    using i(2) sg by simp
  have p: "\<exists>g' q. track_genres sp as' [] = Inr g'
      \<and> export_row iter sp (t\<lparr>item_track := Some (tr\<lparr>track_artists := as'\<rparr>)\<rparr>) = Inr q
      \<and> map_of q (ustr ''Genres'') = Some (S (join (ustr '', '') (iter g')))
      \<and> distinct (iter g') \<and> set (iter g') = set (iter g)"
    if m: "mset as' = mset (track_artists tr)" for as'
  proof -
    from m have e: "set as' = set (track_artists tr)"
      by (rule mset_eq_setD)
    with assms(3) have a: "\<forall>a \<in> set as'. sp_artist sp (artist_id a) = Inr (gs a)"
      by simp
    from track_genres_union [OF a] obtain g'
      where g': "track_genres sp as' [] = Inr g'" and dg': "distinct g'"
        and sg': "set g' = (\<Union>a \<in> set as'. set (gs a))"
      by blast
    have t': "item_track (t\<lparr>item_track := Some (tr\<lparr>track_artists := as'\<rparr>)\<rparr>)
        = Some (tr\<lparr>track_artists := as'\<rparr>)"
      by simp
    have "track_genres sp (track_artists (tr\<lparr>track_artists := as'\<rparr>)) [] = Inr g'"
      using g' by simp
    from export_row_genres [OF t' this] obtain q
      where q: "export_row iter sp (t\<lparr>item_track := Some (tr\<lparr>track_artists := as'\<rparr>)\<rparr>) = Inr q"
        and lq: "map_of q (ustr ''Genres'') = Some (S (join (ustr '', '') (iter g')))"
      by blast
    note i' = set_order_ok_perm [OF assms(1) dg']
    from i'(2) sg' e s have "set (iter g') = set (iter g)"
      by simp
    with g' q lq i'(1) show ?thesis
      by blast
  qed
  have x: "length (iter g) = 3 \<and> set (iter g) = {shared, x, y}"
    if "track_artists tr = [a1, a2] \<and> set (gs a1) = {shared, x} \<and> set (gs a2) = {shared, y}
        \<and> card {shared, x, y} = 3" for a1 a2 shared x y
  proof -
    from that s have e: "set (iter g) = {shared, x, y}"
      by auto
    from d have "length (iter g) = card (set (iter g))"
      by (simp add: distinct_card)
    with e that show ?thesis
      by simp
  qed
  from g r lr r' lr' d s p x show ?thesis
    by blast
qed


theorem genres_field_union_witness:
  "map_of (projr (export_row rev (example_catalog (ustr ''Mix'') [] [])
        (example_item (ustr ''t1'')))) (ustr ''Genres'')
      = Some (S (ustr ''jazz, soul, pop''))
   \<and> map_of (projr (extract_track_info_old rev (example_catalog (ustr ''Mix'') [] [])
        (example_item (ustr ''t1'')))) (ustr ''Genres'')
      = Some (S (ustr ''jazz, soul, pop''))
   \<and> map_of (projr (export_row rev (example_catalog (ustr ''Mix'') [] [])
        ((example_item (ustr ''t1''))\<lparr>item_track := Some ((example_track (ustr ''t1''))
           \<lparr>track_artists := rev (track_artists (example_track (ustr ''t1'')))\<rparr>)\<rparr>)))
        (ustr ''Genres'')
      = Some (S (ustr ''soul, jazz, pop''))"
proof -
  let ?c = "example_catalog (ustr ''Mix'') [] []"
  let ?t = "example_item (ustr ''t1'')"
  let ?tr = "example_track (ustr ''t1'')"
  let ?t' = "?t\<lparr>item_track := Some (?tr\<lparr>track_artists := rev (track_artists ?tr)\<rparr>)\<rparr>"
  have t: "item_track ?t = Some ?tr"
    by (simp add: example_item_def)
  have m: "mset (rev (track_artists ?tr)) = mset (track_artists ?tr)"
    by simp
  note a = example_artists [where n = "ustr ''t1''" and m = "ustr ''Mix''" and ?p1.0 = "[]"
      and ?p2.0 = "[]"]
  from genres_field_union [OF set_order_ok_rev t a] obtain g r r'
    where g: "track_genres ?c (track_artists ?tr) [] = Inr g"
      and r: "export_row rev ?c ?t = Inr r"
      and lr: "map_of r (ustr ''Genres'') = Some (S (join (ustr '', '') (rev g)))"
      and r': "extract_track_info_old rev ?c ?t = Inr r'"
      and lr': "map_of r' (ustr ''Genres'') = Some (S (join (ustr '', '') (rev g)))"
      and p: "\<forall>as'. mset as' = mset (track_artists ?tr) \<longrightarrow>
            (\<exists>g' q. track_genres ?c as' [] = Inr g'
               \<and> export_row rev ?c (?t\<lparr>item_track := Some (?tr\<lparr>track_artists := as'\<rparr>)\<rparr>) = Inr q
               \<and> map_of q (ustr ''Genres'') = Some (S (join (ustr '', '') (rev g')))
               \<and> distinct (rev g') \<and> set (rev g') = set (rev g))"
    by (elim exE conjE) (rule that, assumption+)
  from p m obtain g' q where g': "track_genres ?c (rev (track_artists ?tr)) [] = Inr g'"
    and q: "export_row rev ?c ?t' = Inr q"
    and lq: "map_of q (ustr ''Genres'') = Some (S (join (ustr '', '') (rev g')))"
    by blast
  from g have e: "g = [ustr ''pop'', ustr ''soul'', ustr ''jazz'']"
    by (simp add: track_genres_example)
  have "track_genres ?c (rev (track_artists ?tr)) []
      = Inr [ustr ''pop'', ustr ''jazz'', ustr ''soul'']"
    by (simp add: example_catalog_def example_track_def set_update_def set_add_def ustr_def)
  with g' have e': "g' = [ustr ''pop'', ustr ''jazz'', ustr ''soul'']"
    by simp
  have j: "join (ustr '', '') (rev [ustr ''pop'', ustr ''soul'', ustr ''jazz''])
      = ustr ''jazz, soul, pop''"
    by (simp add: ustr_def)
  have j': "join (ustr '', '') (rev [ustr ''pop'', ustr ''jazz'', ustr ''soul''])
      = ustr ''soul, jazz, pop''"
    by (simp add: ustr_def)
  from r lr r' lr' q lq show ?thesis
    unfolding e e' j j' by simp
qed

section \<open>Order of the genres\<close>

text \<open>
  Claim C7 as stated fails: the order in which the set of genres is joined is the set's
  iteration order, which the program does not fix. Two admissible iteration orders give the
  fields "pop, soul, jazz" and "jazz, soul, pop" for the same catalog data.
\<close>

theorem genres_order_counterexample:
  "set_order_ok (\<lambda>s. s) \<and> set_order_ok rev
   \<and> map_option (\<lambda>r. map_of r (ustr ''Genres''))
       (Some (projr (export_row (\<lambda>s. s) (example_catalog (ustr ''Mix'') [] [])
          (example_item (ustr ''t1'')))))
     = Some (Some (S (ustr ''pop, soul, jazz'')))
   \<and> map_option (\<lambda>r. map_of r (ustr ''Genres''))
       (Some (projr (export_row rev (example_catalog (ustr ''Mix'') [] [])
          (example_item (ustr ''t1'')))))
     = Some (Some (S (ustr ''jazz, soul, pop'')))"
proof -
  have "join (ustr '', '') [ustr ''pop'', ustr ''soul'', ustr ''jazz'']
      = ustr ''pop, soul, jazz''"
    by (simp add: ustr_def)
  moreover have "join (ustr '', '') (rev [ustr ''pop'', ustr ''soul'', ustr ''jazz''])
      = ustr ''jazz, soul, pop''"
    by (simp add: ustr_def)
  ultimately show ?thesis
    unfolding export_row_example
    by (simp add: set_order_ok_id set_order_ok_rev genres_lookup del: map_of.simps)
qed

text \<open>
  Claim C7, amended. Two runs over the same catalog data (each with its own iteration order
  of sets) that reach the same entry agree on every column of its row other than Genres. The
  Genres field of either run is the comma-space join of a rearrangement of one and the same
  list: the genres of the track's artists (what the catalog returned for each artist of the
  entry), each exactly once. The two fields may differ in the order of the genres only.
\<close>

theorem genres_same_up_to_order:
  assumes "set_order_ok iter1" and "set_order_ok iter2"
    and "export_row iter1 sp t = Inr r1"
  shows "\<exists>tr g r2. item_track t = Some tr
     \<and> track_genres sp (track_artists tr) [] = Inr g
     \<and> distinct g
     \<and> set g = (\<Union>a \<in> set (track_artists tr). set (projr (sp_artist sp (artist_id a))))
     \<and> export_row iter2 sp t = Inr r2
     \<and> map_of r1 (ustr ''Genres'') = Some (S (join (ustr '', '') (iter1 g)))
     \<and> map_of r2 (ustr ''Genres'') = Some (S (join (ustr '', '') (iter2 g)))
     \<and> mset (iter1 g) = mset g \<and> mset (iter2 g) = mset g
     \<and> distinct (iter1 g) \<and> distinct (iter2 g)
     \<and> (\<forall>k. k \<noteq> ustr ''Genres'' \<longrightarrow> map_of r1 k = map_of r2 k)"
proof -
  from assms(3) obtain tr where tr: "item_track t = Some tr"
    by (cases "item_track t") (simp_all add: export_row_def)
  with assms(3) obtain g where g: "track_genres sp (track_artists tr) [] = Inr g"
    by (cases "track_genres sp (track_artists tr) []") (simp_all add: export_row_def)
  from track_genres_result [OF g] have dg: "distinct g"
    and sg: "set g = (\<Union>a \<in> set (track_artists tr). set (projr (sp_artist sp (artist_id a))))"
    by simp_all
  from assms(1,2) dg have m: "mset (iter1 g) = mset g" "mset (iter2 g) = mset g"
    by (simp_all add: set_order_ok_def)
  have d: "distinct (iter1 g)" "distinct (iter2 g)"
    using set_order_ok_perm(1) [OF assms(1) dg] set_order_ok_perm(1) [OF assms(2) dg]
    by simp_all
  have r1: "export_row iter1 sp t = Inr r1" by fact
  obtain r2 where r2: "export_row iter2 sp t = Inr r2"
    by (simp add: export_row_def tr g)
  from r1 have e1: "r1 = (ustr ''Track URI'', S (track_uri tr))
      # (ustr ''Track Name'', S (track_name tr))
      # (ustr ''Album Name'', S (album_name (track_album tr)))
      # (ustr ''Artist Name(s)'', S (join (ustr '', '') (map artist_name (track_artists tr))))
      # (ustr ''Release Date'', S (album_release_date (track_album tr)))
      # (ustr ''Duration (ms)'', I (duration_ms tr))
      # (ustr ''Popularity'', I (popularity tr))
      # (ustr ''Explicit'', B (explicit tr))
      # (ustr ''Added By'', S (added_by_id t))
      # (ustr ''Added At'', S (added_at t))
      # (ustr ''Genres'', S (join (ustr '', '') (iter1 g)))
      # (ustr ''Record Label'',
           S (case album_label (track_album tr) of None \<Rightarrow> [] | Some l \<Rightarrow> l))
      # map (\<lambda>k. (k, I 0)) feature_columns"
    by (simp add: export_row_def tr g)
  from r2 have e2: "r2 = (ustr ''Track URI'', S (track_uri tr))
      # (ustr ''Track Name'', S (track_name tr))
      # (ustr ''Album Name'', S (album_name (track_album tr)))
      # (ustr ''Artist Name(s)'', S (join (ustr '', '') (map artist_name (track_artists tr))))
      # (ustr ''Release Date'', S (album_release_date (track_album tr)))
      # (ustr ''Duration (ms)'', I (duration_ms tr))
      # (ustr ''Popularity'', I (popularity tr))
      # (ustr ''Explicit'', B (explicit tr))
      # (ustr ''Added By'', S (added_by_id t))
      # (ustr ''Added At'', S (added_at t))
      # (ustr ''Genres'', S (join (ustr '', '') (iter2 g)))
      # (ustr ''Record Label'',
           S (case album_label (track_album tr) of None \<Rightarrow> [] | Some l \<Rightarrow> l))
      # map (\<lambda>k. (k, I 0)) feature_columns"
    by (simp add: export_row_def tr g)
  have l1: "map_of r1 (ustr ''Genres'') = Some (S (join (ustr '', '') (iter1 g)))"
    unfolding e1 by (rule genres_lookup)
  have l2: "map_of r2 (ustr ''Genres'') = Some (S (join (ustr '', '') (iter2 g)))"
    unfolding e2 by (rule genres_lookup)
  have o: "map_of r1 k = map_of r2 k" if "k \<noteq> ustr ''Genres''" for k
    unfolding e1 e2 using that by (rule other_lookup)
  from tr g dg sg r2 l1 l2 m d o show ?thesis
    by blast
qed


theorem genres_same_up_to_order_witness:
  "map_of (projr (export_row rev (example_catalog (ustr ''Mix'') [] [])
        (example_item (ustr ''t1'')))) (ustr ''Genres'')
      = Some (S (ustr ''jazz, soul, pop''))
   \<and> map_of (projr (export_row (\<lambda>s. s) (example_catalog (ustr ''Mix'') [] [])
        (example_item (ustr ''t1'')))) (ustr ''Track Name'')
      = map_of (projr (export_row rev (example_catalog (ustr ''Mix'') [] [])
        (example_item (ustr ''t1'')))) (ustr ''Track Name'')"
proof -
  let ?c = "example_catalog (ustr ''Mix'') [] []"
  let ?t = "example_item (ustr ''t1'')"
  have x: "export_row (\<lambda>s. s) ?c ?t = Inr (projr (export_row (\<lambda>s. s) ?c ?t))"
    by (simp add: export_row_example)
  from genres_same_up_to_order [OF set_order_ok_id set_order_ok_rev x]
  obtain tr g r2 where tr: "item_track ?t = Some tr"
    and g: "track_genres ?c (track_artists tr) [] = Inr g"
    and r2: "export_row rev ?c ?t = Inr r2"
    and l2: "map_of r2 (ustr ''Genres'') = Some (S (join (ustr '', '') (rev g)))"
    and o: "\<forall>k. k \<noteq> ustr ''Genres'' \<longrightarrow>
        map_of (projr (export_row (\<lambda>s. s) ?c ?t)) k = map_of r2 k"
    by blast
  from tr have "tr = example_track (ustr ''t1'')"
    by (simp add: example_item_def)
  with g have e: "g = [ustr ''pop'', ustr ''soul'', ustr ''jazz'']"
    by (simp add: track_genres_example)
  have j: "join (ustr '', '') (rev [ustr ''pop'', ustr ''soul'', ustr ''jazz''])
      = ustr ''jazz, soul, pop''"
    by (simp add: ustr_def)
  have n: "ustr ''Track Name'' \<noteq> ustr ''Genres''"
    by (simp add: ustr_def)
  from o n have "map_of (projr (export_row (\<lambda>s. s) ?c ?t)) (ustr ''Track Name'')
      = map_of r2 (ustr ''Track Name'')"
    by blast
  with r2 l2 show ?thesis
    unfolding e j by simp
qed

section \<open>Name of the exported file\<close>

lemma path_join_csv: "path_join (ustr ''/out'') (ustr ''.csv'') = ustr ''/out/.csv''"
  by (simp add: path_join_def ustr_def)

lemma get_playlist_tracks_example:
  "get_playlist_tracks (example_catalog n p1 p2) pid = Some (Inr (p1 @ p2))"
proof -
  let ?c = "example_catalog n p1 p2"
  let ?p = "\<lparr>page_items = p1, page_next = Some (ustr ''offset=2'')\<rparr>"
  have h2: "sp_playlist_tracks ?c pid = Inr ?p"
    by (simp add: example_catalog_def)
  have h3: "paginated ?c ?p [p1, p2]"
    by (simp add: example_catalog_def truthy_next_def ustr_def)
  from get_playlist_tracks_paginated [OF h2 h3] show ?thesis
    by simp
qed

lemma export_rows_example:
  "export_rows iter (example_catalog n p1 p2) [example_item t]
     = Inr [projr (export_row iter (example_catalog n p1 p2) (example_item t))]"
  by (simp add: export_row_example)

text \<open>
  Claim C8 as stated fails: for the playlist name "???", whose sanitized form is empty, the
  export raises nothing and writes the table to \<open>/out/.csv\<close>.
\<close>

theorem export_task_empty_name_counterexample:
  "sanitize_filename (ustr ''???'') = []
   \<and> map_option (map_sum id (\<lambda>(path, files). (path, files path \<noteq> None)))
       (export_task remdups (example_catalog (ustr ''???'') [example_item (ustr ''t1'')] [])
          (ustr ''pl'') (ustr ''/out'') Map.empty)
     = Some (Inr (ustr ''/out/.csv'', True))"
proof -
  have n: "sanitize_filename (ustr ''???'') = []"
    by (simp add: sanitize_filename_def ustr_def valid_range strip_def replace_char_def)
  have p: "sp_playlist (example_catalog (ustr ''???'') [example_item (ustr ''t1'')] [])
      (ustr ''pl'') = Inr (ustr ''???'')"
    by (simp add: example_catalog_def)
  show ?thesis
    by (simp add: export_task_def p n get_playlist_tracks_example export_rows_example
        path_join_csv Let_def del: export_rows.simps)
qed

text \<open>
  Claim C8, amended. For every display name whose sanitized form is empty the export makes
  no check of the name: when the catalog calls and the row building succeed, it writes the
  table to the file named \<open>.csv\<close> in the chosen folder and returns that path.
\<close>

theorem export_task_empty_name:
  assumes "sp_playlist sp pid = Inr name"
    and "sanitize_filename name = []"
    and "get_playlist_tracks sp pid = Some (Inr tracks)"
    and "export_rows iter sp tracks = Inr data"
  shows "export_task iter sp pid out files
     = Some (Inr (path_join out (ustr ''.csv''),
                  files(path_join out (ustr ''.csv'') \<mapsto> data)))"
  by (simp add: export_task_def assms Let_def)

theorem export_task_empty_name_witness:
  "export_task remdups
      (example_catalog [1052, 1091, 1079] [example_item (ustr ''t1'')] [])
      (ustr ''pl'') (ustr ''/out'') Map.empty
     = Some (Inr (ustr ''/out/.csv'',
          [ustr ''/out/.csv'' \<mapsto>
             [projr (export_row remdups
                (example_catalog [1052, 1091, 1079] [example_item (ustr ''t1'')] [])
                (example_item (ustr ''t1'')))]]))"
proof -
  let ?c = "example_catalog [1052, 1091, 1079] [example_item (ustr ''t1'')] []"
  have h1: "sp_playlist ?c (ustr ''pl'') = Inr [1052, 1091, 1079]"
    by (simp add: example_catalog_def)
  have h2: "sanitize_filename [1052, 1091, 1079] = []"
    by (simp add: sanitize_filename_def valid_range strip_def replace_char_def)
  have h3: "get_playlist_tracks ?c (ustr ''pl'') = Some (Inr [example_item (ustr ''t1'')])"
    using get_playlist_tracks_example [of "[1052, 1091, 1079]" "[example_item (ustr ''t1'')]" "[]"]
    by simp
  from export_task_empty_name [OF h1 h2 h3 export_rows_example,
      where out = "ustr ''/out''" and files = Map.empty]
  show ?thesis
    by (simp add: path_join_csv)
qed

section \<open>A track without cover art\<close>

lemma ffmpeg_cmd_None:
  "None \<in> set (ffmpeg_cmd audio_path None title artist album rdate year genres label uri fmt out)"
  by (simp add: ffmpeg_cmd_def Let_def)

lemma in_tmp_no_cover:
  assumes "subprocess_run os
      (yt_dlp_cmd tmp (py_str (row_get row (ustr ''Artist Name(s)'')))
         (py_str (row_get row (ustr ''Track Name''))) fmt) (dl_files st) = Inr fs1"
    and "download_spotify_cover sp os (row_get row (ustr ''Track URI'')) tmp fs1 = Inr (None, fs2)"
  shows "in_tmp sp os tmp row fmt out st = (Some TypeError, st\<lparr>dl_files := fs2\<rparr>)"
  using assms by (simp add: in_tmp_def Let_def subprocess_run_def ffmpeg_cmd_None)

lemma example_filename:
  "build_safe_filename (ustr ''Sade'') (ustr ''Smooth Operator'') (ustr ''mp3'')
     = ustr ''Sade - Smooth Operator.mp3''"
  by (simp add: build_safe_filename_def Let_def ustr_def illegal_chars_def strip_def
      py_isspace_def whitespace_def)

lemma example_row_get:
  "row_get example_row (ustr ''Artist Name(s)'') = S (ustr ''Sade'')"
  "row_get example_row (ustr ''Track Name'') = S (ustr ''Smooth Operator'')"
  "row_get example_row (ustr ''Album Name'') = S (ustr ''Diamond Life'')"
  "row_get example_row (ustr ''Track URI'') = S (ustr ''spotify:track:t1'')"
  "row_get example_row (ustr ''Genres'') = S (ustr ''soul, pop'')"
  "row_get example_row (ustr ''Record Label'') = S (ustr ''Epic'')"
  "row_get example_row (ustr ''Release Date'') = S (ustr ''1984-07-16'')"
  by (simp_all add: row_get_def example_row_def ustr_def)

lemma example_out:
  "path_join (ustr ''/music'') (ustr ''Sade - Smooth Operator.mp3'')
     = ustr ''/music/Sade - Smooth Operator.mp3''"
  by (simp add: path_join_def ustr_def)

lemma example_yt_dlp:
  "subprocess_run example_tools (yt_dlp_cmd tmp artist title fmt) fs
     = Inr (ustr ''/tmp/job/source.mp3'' # fs)"
  by (simp add: subprocess_run_def yt_dlp_cmd_def example_tools_def)

lemma example_no_cover:
  "download_spotify_cover (example_catalog n p1 p2) os (S (ustr ''spotify:track:t1'')) tmp fs
     = Inr (None, fs)"
  by (simp add: download_spotify_cover_def example_catalog_def example_track_def
      example_album_def)

lemma example_cleanup:
  "cleanup (ustr ''/tmp/job'') (ustr ''/tmp/job/source.mp3'' # fs) = cleanup (ustr ''/tmp/job'') fs"
  "cleanup (ustr ''/tmp/job'') (ustr ''/tmp/job/audio.mp3'' # fs) = cleanup (ustr ''/tmp/job'') fs"
  "cleanup (ustr ''/tmp/job'') (ustr ''/tmp/job/cover.jpg'' # fs) = cleanup (ustr ''/tmp/job'') fs"
  "cleanup (ustr ''/tmp/job'') (ustr ''/music/Sade - Smooth Operator.mp3'' # fs)
     = ustr ''/music/Sade - Smooth Operator.mp3'' # cleanup (ustr ''/tmp/job'') fs"
  "cleanup (ustr ''/tmp/job'') (ustr ''/music/audio.mp3'' # fs)
     = ustr ''/music/audio.mp3'' # cleanup (ustr ''/tmp/job'') fs"
  "cleanup tmp [] = []"
  by (simp_all add: cleanup_def ustr_def)

lemma download_track_example_no_art:
  "download_track (example_catalog (ustr ''Mix'') [] []) example_tools example_config
      (ustr ''/tmp/job'') example_row \<lparr>dl_files = [], dl_log = []\<rparr>
     = (Some TypeError, \<lparr>dl_files = [], dl_log = []\<rparr>)"
proof -
  have "in_tmp (example_catalog (ustr ''Mix'') [] []) example_tools (ustr ''/tmp/job'')
      example_row (ustr ''mp3'') (ustr ''/music/Sade - Smooth Operator.mp3'')
      \<lparr>dl_files = [], dl_log = []\<rparr>
    = (Some TypeError, \<lparr>dl_files = [ustr ''/tmp/job/source.mp3''], dl_log = []\<rparr>)"
    using in_tmp_no_cover [where os = example_tools and tmp = "ustr ''/tmp/job''"
        and row = example_row and fmt = "ustr ''mp3''"
        and st = "\<lparr>dl_files = [], dl_log = []\<rparr>"
        and ?fs1.0 = "[ustr ''/tmp/job/source.mp3'']"
        and sp = "example_catalog (ustr ''Mix'') [] []"
        and ?fs2.0 = "[ustr ''/tmp/job/source.mp3'']"
        and out = "ustr ''/music/Sade - Smooth Operator.mp3''"]
    by (simp add: example_row_get py_str_def example_yt_dlp example_no_cover)
  then show ?thesis
    by (simp add: download_track_def Let_def example_row_get example_config_def py_str_def
        example_filename example_out example_cleanup)
qed

lemma example_cover:
  "download_spotify_cover art_catalog example_tools (S (ustr ''spotify:track:t1''))
      (ustr ''/tmp/job'') fs
     = Inr (Some (ustr ''/tmp/job/cover.jpg''), ustr ''/tmp/job/cover.jpg'' # fs)"
  by (simp add: download_spotify_cover_def art_catalog_def example_catalog_def
      example_track_def example_album_def example_tools_def Let_def)
    (simp add: path_join_def ustr_def)

lemma example_ffmpeg:
  "subprocess_run example_tools
      (ffmpeg_cmd audio_path (Some c) title artist album rdate year genres label uri fmt out) fs
     = Inr (out # fs)"
  by (simp add: subprocess_run_def ffmpeg_cmd_def Let_def example_tools_def ustr_def)

lemma download_track_example_art:
  "download_track art_catalog example_tools example_config
      (ustr ''/tmp/job'') example_row \<lparr>dl_files = [], dl_log = []\<rparr>
     = (None, \<lparr>dl_files = [ustr ''/music/Sade - Smooth Operator.mp3''],
               dl_log = [ustr ''Finished: Sade - Smooth Operator'']\<rparr>)"
proof -
  have "in_tmp art_catalog example_tools (ustr ''/tmp/job'')
      example_row (ustr ''mp3'') (ustr ''/music/Sade - Smooth Operator.mp3'')
      \<lparr>dl_files = [], dl_log = []\<rparr>
    = (None, \<lparr>dl_files = [ustr ''/music/Sade - Smooth Operator.mp3'',
          ustr ''/tmp/job/cover.jpg'', ustr ''/tmp/job/source.mp3''],
         dl_log = [ustr ''Finished: Sade - Smooth Operator'']\<rparr>)"
    by (simp add: in_tmp_def Let_def example_row_get py_str_def example_yt_dlp example_cover
        example_ffmpeg)
      (simp add: ustr_def)
  then show ?thesis
    by (simp add: download_track_def Let_def example_row_get example_config_def py_str_def
        example_filename example_out example_cleanup)
qed

lemma download_track_old_example_no_art:
  "download_track_old (example_catalog (ustr ''Mix'') [] []) example_tools (ustr ''/music'')
      (ustr ''/tmp/job'') (ustr ''Sade - Smooth Operator'') (S (ustr ''spotify:track:t1''))
      (ustr ''mp3'') (ustr ''skip'') []
     = (None, [ustr ''/music/audio.mp3''])"
proof -
  have r: "subprocess_run example_tools (Some (ustr ''yt-dlp'') # args) fs
      = Inr (ustr ''/tmp/job/audio.mp3'' # fs)"
    if "None \<notin> set args" and "ustr ''source.%(ext)s'' \<notin> set (map the args)" for args fs
    using that by (simp add: subprocess_run_def example_tools_def ustr_def)
  have n: "ustr ''source.%(ext)s'' \<notin> {ustr ''--extractor-args'', ustr ''youtube:music'',
      ustr ''ytsearch1:'' @ ustr ''Sade - Smooth Operator'', ustr ''-x'', ustr ''--add-metadata'',
      ustr ''-o'', path_join (ustr ''/tmp/job'') (ustr ''audio.%(ext)s''),
      ustr ''--audio-format'', ustr ''mp3'', ustr ''--audio-quality'', ustr ''0''}"
    by (simp add: ustr_def path_join_def)
  have l: "filter (\<lambda>f. take 6 f = ustr ''audio.'')
      (listdir (ustr ''/tmp/job'') [ustr ''/tmp/job/audio.mp3'']) = [ustr ''audio.mp3'']"
    by (simp add: listdir_def ustr_def)
  have j: "path_join (ustr ''/music'') (ustr ''audio.mp3'') = ustr ''/music/audio.mp3''"
    by (simp add: path_join_def ustr_def)
  show ?thesis
    using n by (simp add: download_track_old_def Let_def r l j example_no_cover example_cleanup)
qed

text \<open>
  Claim C5 (fails on download_track of spotisaver.py). For a row whose track has no image
  listed in the catalog, \<open>download_spotify_cover\<close> returns \<open>None\<close>, which is placed in the
  argument list of ffmpeg; \<open>subprocess.run\<close> raises TypeError, the job fails and leaves no
  output file and no "Finished" line. With cover art the same row gives the output file. The
  older downloader.py (lines 237-239) copies the plain audio file to the output folder for
  the same track and raises nothing.
\<close>

theorem download_track_no_cover_art:
  "download_track (example_catalog (ustr ''Mix'') [] []) example_tools example_config
      (ustr ''/tmp/job'') example_row \<lparr>dl_files = [], dl_log = []\<rparr>
     = (Some TypeError, \<lparr>dl_files = [], dl_log = []\<rparr>)
   \<and> download_track art_catalog example_tools example_config
      (ustr ''/tmp/job'') example_row \<lparr>dl_files = [], dl_log = []\<rparr>
     = (None, \<lparr>dl_files = [ustr ''/music/Sade - Smooth Operator.mp3''],
               dl_log = [ustr ''Finished: Sade - Smooth Operator'']\<rparr>)
   \<and> download_track_old (example_catalog (ustr ''Mix'') [] []) example_tools (ustr ''/music'')
      (ustr ''/tmp/job'') (ustr ''Sade - Smooth Operator'') (S (ustr ''spotify:track:t1''))
      (ustr ''mp3'') (ustr ''skip'') []
     = (None, [ustr ''/music/audio.mp3''])"
  using download_track_example_no_art download_track_example_art
    download_track_old_example_no_art
  by (intro conjI)

section \<open>The download run\<close>

lemma submit_jobs_props:
  "submit_jobs stop k xs = (fs, k') \<Longrightarrow>
     fs = take (length fs) xs \<and> k + length fs \<le> k'
     \<and> (\<forall>i. k \<le> i \<and> i < k + length fs \<longrightarrow> \<not> stop i)
     \<and> (length fs < length xs \<longrightarrow> stop (k + length fs))
     \<and> k' = (if length fs < length xs then Suc (k + length fs) else k + length fs)"
proof (induction xs arbitrary: k fs k')
  case Nil
  then show ?case by auto
next
  case (Cons x xs)
  show ?case
  proof (cases "stop k")
    case True
    with Cons.prems show ?thesis by auto
  next
    case False
    obtain gs j where r: "submit_jobs stop (Suc k) xs = (gs, j)"
      by (cases "submit_jobs stop (Suc k) xs")
    with False Cons.prems have e: "fs = x # gs" "k' = j"
      by simp_all
    from Cons.IH [OF r] have ih: "gs = take (length gs) xs" "Suc k + length gs \<le> j"
      "\<forall>i. Suc k \<le> i \<and> i < Suc k + length gs \<longrightarrow> \<not> stop i"
      "length gs < length xs \<longrightarrow> stop (Suc k + length gs)"
      "j = (if length gs < length xs then Suc (Suc k + length gs) else Suc k + length gs)"
      by simp_all
    have "\<not> stop i" if "k \<le> i \<and> i < k + length fs" for i
    proof (cases "i = k")
      case True
      with False show ?thesis by simp
    next
      case False
      with that e have "Suc k \<le> i \<and> i < Suc k + length gs"
        by simp
      with ih(3) show ?thesis by blast
    qed
    with e ih(1,2,4,5) show ?thesis
      by simp
  qed
qed

lemma submit_jobs_all:
  "\<forall>i. \<not> stop i \<Longrightarrow> submit_jobs stop k xs = (xs, k + length xs)"
  by (induction xs arbitrary: k) simp_all

lemma collect_props:
  "collect stop k futs st = (st', k') \<Longrightarrow>
     \<exists>n. completed st' = completed st + n \<and> n \<le> length futs \<and> k + n \<le> k'
       \<and> (\<forall>i. k \<le> i \<and> i < k + n \<longrightarrow> \<not> stop i)
       \<and> (n < length futs \<longrightarrow> stop (k + n))
       \<and> run_log st' = run_log st @ error_lines (take n futs)
       \<and> total st' = total st \<and> submitted st' = submitted st
       \<and> executed st' = executed st \<and> raised st' = raised st"
proof (induction futs arbitrary: k st)
  case Nil
  then show ?case by (auto simp: error_lines_def)
next
  case (Cons f futs)
  show ?case
  proof (cases "stop k")
    case True
    with Cons.prems show ?thesis by (auto simp: error_lines_def)
  next
    case False
    let ?st = "st\<lparr>run_log := run_log st @ (case snd f of None \<Rightarrow> [] | Some e \<Rightarrow> [Error e]),
                 completed := Suc (completed st),
                 progress_value := Suc (completed st),
                 dl_status := Progress (Suc (completed st)) (total st)\<rparr>"
    from False Cons.prems have r: "collect stop (Suc k) futs ?st = (st', k')"
      by simp
    from Cons.IH [OF r] obtain n where n: "completed st' = completed ?st + n"
      "n \<le> length futs" "Suc k + n \<le> k'"
      "\<forall>i. Suc k \<le> i \<and> i < Suc k + n \<longrightarrow> \<not> stop i"
      "run_log st' = run_log ?st @ error_lines (take n futs)"
      "total st' = total ?st" "submitted st' = submitted ?st"
      "executed st' = executed ?st" "raised st' = raised ?st"
      "n < length futs \<longrightarrow> stop (Suc k + n)"
      by blast
    have "\<not> stop i" if "k \<le> i \<and> i < k + Suc n" for i
    proof (cases "i = k")
      case True
      with False show ?thesis by simp
    next
      case False
      with that have "Suc k \<le> i \<and> i < Suc k + n"
        by arith
      with n(4) show ?thesis by blast
    qed
    moreover have "run_log st' = run_log st @ error_lines (take (Suc n) (f # futs))"
      using n(5) by (simp add: error_lines_def)
    ultimately have "completed st' = completed st + Suc n \<and> Suc n \<le> length (f # futs)
        \<and> k + Suc n \<le> k' \<and> (\<forall>i. k \<le> i \<and> i < k + Suc n \<longrightarrow> \<not> stop i)
        \<and> (Suc n < length (f # futs) \<longrightarrow> stop (k + Suc n))
        \<and> run_log st' = run_log st @ error_lines (take (Suc n) (f # futs))
        \<and> total st' = total st \<and> submitted st' = submitted st
        \<and> executed st' = executed st \<and> raised st' = raised st"
      using n(1,2,3,6,7,8,9,10) by simp
    then show ?thesis
      by blast
  qed
qed

lemma collect_all:
  assumes "\<forall>i. \<not> stop i"
  shows "snd (collect stop k futs st) = k + length futs
     \<and> completed (fst (collect stop k futs st)) = completed st + length futs
     \<and> run_log (fst (collect stop k futs st)) = run_log st @ error_lines futs
     \<and> (progress_value st = completed st \<longrightarrow>
          progress_value (fst (collect stop k futs st)) = completed st + length futs)"
  using assms by (induction futs arbitrary: k st) (simp_all add: error_lines_def)

lemma run_dl_steps:
  assumes "0 < parallel_var cfg"
    and "submit_jobs stop 0 (zip [0..<length df] df) = (jobs, k1)"
    and "collect stop k1 (as_completed (map (\<lambda>(i, row). (i, job i row)) jobs))
           ((start_state cfg df)\<lparr>submitted := map snd jobs\<rparr>) = (st1, k2)"
  shows "run_dl stop as_completed job cfg df =
      (if \<not> stop k2 then st1\<lparr>executed := map snd jobs, dl_status := Done\<rparr>
       else st1\<lparr>executed := map snd jobs\<rparr>)\<lparr>raised := Some AttributeError\<rparr>"
  using assms by (simp add: run_dl_def Let_def start_state_def)

text \<open>
  Every run ends by an exception: ValueError from the executor when the worker count is not
  positive, and otherwise AttributeError at line 385, after the loops and the status update.
\<close>

lemma run_dl_raises:
  "raised (run_dl stop as_completed job cfg df)
     = Some (if parallel_var cfg \<le> 0 then ValueError else AttributeError)"
proof (cases "parallel_var cfg \<le> 0")
  case True
  then show ?thesis
    by (simp add: run_dl_def Let_def)
next
  case False
  obtain jobs k1 where s: "submit_jobs stop 0 (zip [0..<length df] df) = (jobs, k1)"
    by (cases "submit_jobs stop 0 (zip [0..<length df] df)")
  obtain st1 k2 where c: "collect stop k1 (as_completed (map (\<lambda>(i, row). (i, job i row)) jobs))
           ((start_state cfg df)\<lparr>submitted := map snd jobs\<rparr>) = (st1, k2)"
    by (cases "collect stop k1 (as_completed (map (\<lambda>(i, row). (i, job i row)) jobs))
           ((start_state cfg df)\<lparr>submitted := map snd jobs\<rparr>)")
  from False have "0 < parallel_var cfg" by simp
  from run_dl_steps [where job = job and as_completed = as_completed, OF this s c] False show ?thesis
    by simp
qed

lemma take_zip_snd:
  "m \<le> length df \<Longrightarrow> map snd (take m (zip [0..<length df] df)) = take m df"
  by (simp add: take_map [symmetric])

lemma zip_upt_take:
  "m \<le> length df \<Longrightarrow> zip [0..<length (take m df)] (take m df) = take m (zip [0..<length df] df)"
  by (simp add: take_zip min_absorb2)

lemma mset_concat_map:
  "mset (concat (map f xs)) = (\<Sum>x\<in>#mset xs. mset (f x))"
  by (induction xs) simp_all

lemma error_lines_mset:
  "mset futs = mset futs' \<Longrightarrow> mset (error_lines futs) = mset (error_lines futs')"
  by (simp add: error_lines_def mset_concat_map)

lemma error_lines_failed:
  "length (error_lines (map (\<lambda>(i, row). (i, job i row)) js))
     = length (filter (\<lambda>(i, row). job i row \<noteq> None) js)"
  by (induction js) (auto simp: error_lines_def)

lemma example_job_no_art:
  "example_job (example_catalog (ustr ''Mix'') [] []) i example_row = Some TypeError"
  by (simp add: example_job_def download_track_example_no_art)


lemma example_workers: "0 < parallel_var example_config"
  by (simp add: example_config_def)


lemma as_completed_ok_rev: "as_completed_ok rev"
  by (simp add: as_completed_ok_def)





text \<open>
  Claim C2 as stated fails: in a run of two jobs that both fail with TypeError (tracks
  without cover art), where the cancellation is observed by the first check of the
  collecting loop, both jobs were submitted and are run, but no failure is logged and the
  completed count is 0.
\<close>

theorem run_dl_failures_counterexample:
  "example_job (example_catalog (ustr ''Mix'') [] []) 0 example_row = Some TypeError
   \<and> example_job (example_catalog (ustr ''Mix'') [] []) 1 example_row = Some TypeError
   \<and> executed (run_dl (\<lambda>k. 2 \<le> k) (\<lambda>fs. fs) (example_job (example_catalog (ustr ''Mix'') [] []))
       example_config [example_row, example_row]) = [example_row, example_row]
   \<and> run_log (run_dl (\<lambda>k. 2 \<le> k) (\<lambda>fs. fs) (example_job (example_catalog (ustr ''Mix'') [] []))
       example_config [example_row, example_row]) = [Starting 2]
   \<and> completed (run_dl (\<lambda>k. 2 \<le> k) (\<lambda>fs. fs) (example_job (example_catalog (ustr ''Mix'') [] []))
       example_config [example_row, example_row]) = 0"
  by (simp add: run_dl_def Let_def example_config_def upt_rec numeral_eq_Suc example_job_no_art)

text \<open>
  Claim C2, amended. In every run with a positive worker count, the log holds, after the
  starting line, one ERROR line for each failed job among the results that were collected
  (the first \<open>completed\<close> futures in completion order), in that order, and nothing else: a
  failure is caught where its result is collected and does not end the collecting loop. In
  a run that is never cancelled every row is submitted and run, the completed count and the
  progress bar are the number of rows, the status is Done, and the log holds exactly one
  ERROR line per failed job, also when every job failed. (Failures of jobs whose results
  are not collected before the cancellation is observed are neither logged nor counted.)
\<close>

theorem run_dl_failures_logged:
  fixes stop :: "nat \<Rightarrow> bool" and as_completed :: "future list \<Rightarrow> future list"
    and job :: "nat \<Rightarrow> dl_row \<Rightarrow> exn option" and cfg :: config and df :: "dl_row list"
  defines "r \<equiv> run_dl stop as_completed job cfg df"
  assumes "0 < parallel_var cfg" and "as_completed_ok as_completed"
  shows "run_log r = Starting (parallel_var cfg)
        # error_lines (take (completed r)
            (as_completed (map (\<lambda>(i, row). (i, job i row))
               (zip [0..<length (submitted r)] (submitted r)))))
    \<and> completed r \<le> length (submitted r)
    \<and> ((\<forall>j. \<not> stop j) \<longrightarrow>
          submitted r = df \<and> executed r = df \<and> completed r = length df
          \<and> progress_value r = length df \<and> dl_status r = Done
          \<and> mset (run_log r) = mset (Starting (parallel_var cfg)
              # error_lines (map (\<lambda>(i, row). (i, job i row)) (zip [0..<length df] df)))
          \<and> length (run_log r)
              = Suc (length (filter (\<lambda>(i, row). job i row \<noteq> None) (zip [0..<length df] df))))"
proof -
  obtain jobs k1 where s: "submit_jobs stop 0 (zip [0..<length df] df) = (jobs, k1)"
    by (cases "submit_jobs stop 0 (zip [0..<length df] df)")
  let ?futs = "as_completed (map (\<lambda>(i, row). (i, job i row)) jobs)"
  let ?st = "(start_state cfg df)\<lparr>submitted := map snd jobs\<rparr>"
  obtain st1 k2 where c: "collect stop k1 ?futs ?st = (st1, k2)"
    by (cases "collect stop k1 ?futs ?st")
  note e = run_dl_steps [where job = job and as_completed = as_completed, OF assms(2) s c]
  from submit_jobs_props [OF s] have j: "jobs = take (length jobs) (zip [0..<length df] df)"
    by simp
  then have "length jobs = length (take (length jobs) (zip [0..<length df] df))"
    by simp
  then have l: "length jobs \<le> length df"
    by simp
  have m: "map snd jobs = take (length jobs) df"
    using take_zip_snd [OF l] j by simp
  have z: "zip [0..<length (map snd jobs)] (map snd jobs) = jobs"
    unfolding m using zip_upt_take [OF l] j by simp
  from assms(3) have p: "mset ?futs = mset (map (\<lambda>(i, row). (i, job i row)) jobs)"
    by (simp add: as_completed_ok_def)
  then have "size (mset ?futs) = size (mset (map (\<lambda>(i, row). (i, job i row)) jobs))"
    by simp
  then have f: "length ?futs = length jobs"
    by simp
  from collect_props [OF c] obtain n where n: "completed st1 = n" "n \<le> length ?futs"
    "run_log st1 = [Starting (parallel_var cfg)] @ error_lines (take n ?futs)"
    "submitted st1 = map snd jobs"
    by (auto simp: start_state_def)
  have su: "submitted r = map snd jobs" and co: "completed r = n"
    and lg: "run_log r = Starting (parallel_var cfg) # error_lines (take n ?futs)"
    unfolding r_def using e n by simp_all
  have g1: "run_log r = Starting (parallel_var cfg)
        # error_lines (take (completed r)
            (as_completed (map (\<lambda>(i, row). (i, job i row))
               (zip [0..<length (submitted r)] (submitted r)))))"
    unfolding su z co by (rule lg)
  have g2: "completed r \<le> length (submitted r)"
    unfolding su co using n(2) f by simp
  have g3: "submitted r = df \<and> executed r = df \<and> completed r = length df
      \<and> progress_value r = length df \<and> dl_status r = Done
      \<and> mset (run_log r) = mset (Starting (parallel_var cfg)
          # error_lines (map (\<lambda>(i, row). (i, job i row)) (zip [0..<length df] df)))
      \<and> length (run_log r)
          = Suc (length (filter (\<lambda>(i, row). job i row \<noteq> None) (zip [0..<length df] df)))"
    if h: "\<forall>j. \<not> stop j"
  proof -
    from submit_jobs_all [OF h, of 0 "zip [0..<length df] df"] s
    have a: "jobs = zip [0..<length df] df"
      by simp
    then have lj: "length jobs = length df"
      by simp
    from a have sj: "map snd jobs = df"
      by simp
    from collect_all [OF h, of k1 ?futs ?st] c
    have b: "completed st1 = length df"
      "run_log st1 = [Starting (parallel_var cfg)] @ error_lines ?futs"
      "progress_value st1 = length df"
      by (simp_all add: f lj start_state_def)
    from h have b4: "\<not> stop k2"
      by simp
    have q: "mset (error_lines ?futs)
        = mset (error_lines (map (\<lambda>(i, row). (i, job i row)) jobs))"
      using p by (rule error_lines_mset)
    then have "size (mset (error_lines ?futs))
        = size (mset (error_lines (map (\<lambda>(i, row). (i, job i row)) jobs)))"
      by simp
    then have w: "length (error_lines ?futs)
        = length (filter (\<lambda>(i, row). job i row \<noteq> None) jobs)"
      by (simp add: error_lines_failed)
    have x1: "submitted r = df"
      using su sj by simp
    have x2: "executed r = df"
      unfolding r_def e using sj by simp
    have x3: "completed r = length df"
      using co n(1) b(1) by simp
    have x4: "progress_value r = length df"
      unfolding r_def e using b(3) by simp
    have x5: "dl_status r = Done"
      unfolding r_def e using b4 by simp
    have x6: "run_log r = Starting (parallel_var cfg) # error_lines ?futs"
      unfolding r_def e using b(2) by simp
    have x7: "mset (run_log r) = mset (Starting (parallel_var cfg)
        # error_lines (map (\<lambda>(i, row). (i, job i row)) jobs))"
      unfolding x6 using q by simp
    have x8: "length (run_log r)
        = Suc (length (filter (\<lambda>(i, row). job i row \<noteq> None) jobs))"
      unfolding x6 using w by simp
    from x1 x2 x3 x4 x5 x7 x8 show ?thesis
      unfolding a [symmetric] by (intro conjI)
  qed
  from g1 g2 g3 show ?thesis
    by blast
qed


theorem run_dl_failures_logged_witness:
  "run_log (run_dl (\<lambda>k. False) rev (example_job (example_catalog (ustr ''Mix'') [] []))
       example_config [example_row, example_row]) = [Starting 2, Error TypeError, Error TypeError]
   \<and> completed (run_dl (\<lambda>k. False) rev (example_job (example_catalog (ustr ''Mix'') [] []))
       example_config [example_row, example_row]) = 2
   \<and> dl_status (run_dl (\<lambda>k. False) rev (example_job (example_catalog (ustr ''Mix'') [] []))
       example_config [example_row, example_row]) = Done"
proof -
  let ?r = "run_dl (\<lambda>k. False) rev (example_job (example_catalog (ustr ''Mix'') [] []))
       example_config [example_row, example_row]"
  note t = run_dl_failures_logged [OF example_workers as_completed_ok_rev,
      where stop = "\<lambda>k. False" and job = "example_job (example_catalog (ustr ''Mix'') [] [])"
        and df = "[example_row, example_row]"]
  have p: "parallel_var example_config = 2"
    by (simp add: example_config_def)
  from t [THEN conjunct2, THEN conjunct2]
  have s: "submitted ?r = [example_row, example_row]" and c: "completed ?r = 2"
    and d: "dl_status ?r = Done"
    by simp_all
  have "run_log ?r = [Starting 2, Error TypeError, Error TypeError]"
    using t [THEN conjunct1, unfolded s c]
    by (simp add: p error_lines_def upt_rec numeral_eq_Suc example_job_no_art)
  with c d show ?thesis
    by (intro conjI)
qed

end
